theory Spec2Isabelle
  imports Main
begin

chapter \<open>ClaraVerse service orchestration: registry, container lifecycle, remote deployment\<close>

text \<open>
  A shallow embedding of three modules of the repository:
  \<^item> the service registry (\<^verbatim>\<open>SERVICE_DEFINITIONS\<close>, \<^verbatim>\<open>validateServiceConfiguration\<close>,
    \<^verbatim>\<open>isServiceModeSupported\<close>, \<^verbatim>\<open>getSupportedDeploymentModes\<close>);
  \<^item> the local container manager (\<^verbatim>\<open>ClaraCoreDockerService\<close>: \<^verbatim>\<open>start\<close>, \<^verbatim>\<open>getStatus\<close>);
  \<^item> the remote deployment service (\<^verbatim>\<open>ClaraCoreRemoteService\<close>: \<^verbatim>\<open>testSetup\<close>,
    \<^verbatim>\<open>detectHardware\<close>, \<^verbatim>\<open>deploy\<close>, \<^verbatim>\<open>monitorRemoteServices\<close>).

  JavaScript strings are modelled as \<^typ>\<open>string\<close>, one \<^typ>\<open>char\<close> per code unit below 256.
\<close>

section \<open>String primitives of the JavaScript runtime\<close>

text \<open>\<^verbatim>\<open>s.startsWith(p)\<close>.\<close>

fun starts_with :: "string \<Rightarrow> string \<Rightarrow> bool" where
  "starts_with s [] = True"
| "starts_with [] (p # ps) = False"
| "starts_with (c # cs) (p # ps) = (c = p \<and> starts_with cs ps)"

text \<open>\<^verbatim>\<open>s.includes(sub)\<close> on strings.\<close>

fun str_includes :: "string \<Rightarrow> string \<Rightarrow> bool" where
  "str_includes [] sub = (sub = [])"
| "str_includes (c # cs) sub = (starts_with (c # cs) sub \<or> str_includes cs sub)"

text \<open>
  White space as \<^verbatim>\<open>trim()\<close> and the regular expression class \<^verbatim>\<open>\s\<close> read it, among
  the code units below 256: tab, line feed, vertical tab, form feed, carriage return,
  space and no-break space.
\<close>

definition is_space :: "char \<Rightarrow> bool" where
  "is_space c =
    (c \<in> set [CHR 0x09, CHR 0x0A, CHR 0x0B, CHR 0x0C, CHR 0x0D, CHR 0x20, CHR 0xA0])"

definition trim :: "string \<Rightarrow> string" where
  "trim s = rev (dropWhile is_space (rev (dropWhile is_space s)))"

text \<open>\<^verbatim>\<open>s.split(sep)\<close> for a separator of one character: at least one piece.\<close>

fun split_on :: "char \<Rightarrow> string \<Rightarrow> string list" where
  "split_on sep [] = [[]]"
| "split_on sep (c # cs) =
    (if c = sep then [] # split_on sep cs
     else (case split_on sep cs of w # ws \<Rightarrow> (c # w) # ws | [] \<Rightarrow> [[c]]))"

text \<open>\<^verbatim>\<open>s.split(/\s+/)\<close>: the pieces between maximal runs of white space.\<close>

function split_spaces :: "string \<Rightarrow> string list" where
  "split_spaces [] = [[]]"
| "split_spaces (c # cs) =
    (if is_space c then [] # split_spaces (dropWhile is_space cs)
     else (case split_spaces cs of w # ws \<Rightarrow> (c # w) # ws | [] \<Rightarrow> [[c]]))"
  by pat_completeness auto
termination
  by (relation "measure length") (auto simp: le_imp_less_Suc length_dropWhile_le)

text \<open>
  \<^verbatim>\<open>s.replace(pattern, replacement)\<close> with a string pattern replaces the first occurrence;
  with a regular expression of literal characters and the flag \<^verbatim>\<open>g\<close> it replaces every
  occurrence, left to right. No replacement string of the program contains \<^verbatim>\<open>$\<close>.
\<close>

fun replace_first :: "string \<Rightarrow> string \<Rightarrow> string \<Rightarrow> string" where
  "replace_first pat rep [] = (if pat = [] then rep else [])"
| "replace_first pat rep (c # cs) =
    (if starts_with (c # cs) pat then rep @ drop (length pat) (c # cs)
     else c # replace_first pat rep cs)"

function replace_all :: "string \<Rightarrow> string \<Rightarrow> string \<Rightarrow> string" where
  "replace_all pat rep [] = []"
| "replace_all pat rep (c # cs) =
    (if pat \<noteq> [] \<and> starts_with (c # cs) pat
     then rep @ replace_all pat rep (drop (length pat - 1) cs)
     else c # replace_all pat rep cs)"
  by pat_completeness auto
termination
  by (relation "measure (\<lambda>(pat, rep, s). length s)") auto

text \<open>
  \<^verbatim>\<open>toLowerCase()\<close> on code units below 256, and \<^verbatim>\<open>toUpperCase()\<close> on ASCII (the
  program applies it to \<^verbatim>\<open>'cuda'\<close>, \<^verbatim>\<open>'rocm'\<close> and \<^verbatim>\<open>'strix'\<close> only).
\<close>

definition lower_char :: "char \<Rightarrow> char" where
  "lower_char c =
    (let n = (of_char c :: nat)
     in if (65 \<le> n \<and> n \<le> 90) \<or> (192 \<le> n \<and> n \<le> 222 \<and> n \<noteq> 215)
        then char_of (n + 32) else c)"

definition toLowerCase :: "string \<Rightarrow> string" where
  "toLowerCase s = map lower_char s"

definition upper_char :: "char \<Rightarrow> char" where
  "upper_char c =
    (let n = (of_char c :: nat)
     in if 97 \<le> n \<and> n \<le> 122 then char_of (n - 32) else c)"

definition toUpperCase :: "string \<Rightarrow> string" where
  "toUpperCase s = map upper_char s"

text \<open>A number in a template literal: its decimal digits.\<close>

function show_nat :: "nat \<Rightarrow> string" where
  "show_nat n =
    (if n < 10 then [char_of (48 + n)] else show_nat (n div 10) @ [char_of (48 + n mod 10)])"
  by pat_completeness auto
termination
  by (relation "measure id") auto

definition show_int :: "int \<Rightarrow> string" where
  "show_int i = (if i < 0 then CHR ''-'' # show_nat (nat (- i)) else show_nat (nat i))"

abbreviation newline :: string where
  "newline \<equiv> [CHR 0x0A]"

abbreviation apostrophe :: string where
  "apostrophe \<equiv> [CHR 0x27]"

section \<open>The service registry\<close>

subsection \<open>Data\<close>

text \<open>
  What a registry function can return: \<^verbatim>\<open>isServiceModeSupported\<close> returns a boolean, or
  \<^verbatim>\<open>undefined\<close> when \<^verbatim>\<open>platformSupport\<close> has no entry for the mode
  (\<^verbatim>\<open>supportedPlatforms && ...\<close>).
\<close>

datatype jsval = JBool bool | JUndefined

fun truthy :: "jsval \<Rightarrow> bool" where
  "truthy (JBool b) = b"
| "truthy JUndefined = False"

text \<open>
  The fields of a service definition that the registry functions read. An optional
  property of the object literal is an \<^typ>\<open>'a option\<close>; \<^verbatim>\<open>platformSupport\<close> is the
  object keyed by deployment mode that every entry of the table uses.
\<close>

record service_definition =
  display_name :: string
  service_type :: string
  critical :: bool
  autoRestart :: bool
  priority :: nat
  dependencies :: "string list option"
  deploymentModes :: "string list option"
  platformSupport :: "(string \<times> string list) list option"

text \<open>An object with string keys, in \<^verbatim>\<open>Object.keys\<close> order.\<close>

type_synonym services = "(string \<times> service_definition) list"

definition SERVICE_DEFINITIONS :: services where
  "SERVICE_DEFINITIONS =
    [(''docker'',
        \<lparr>display_name = ''Docker Engine'', service_type = ''docker-daemon'', critical = True,
         autoRestart = True, priority = 1, dependencies = Some [],
         deploymentModes = None, platformSupport = None\<rparr>),
     (''python-backend'',
        \<lparr>display_name = ''Python Backend Service'', service_type = ''docker-container'',
         critical = True, autoRestart = True, priority = 2, dependencies = Some [''docker''],
         deploymentModes = Some [''docker'', ''manual'', ''remote''],
         platformSupport = Some
           [(''docker'', [''win32'', ''darwin'', ''linux'']),
            (''manual'', [''win32'', ''darwin'', ''linux'']),
            (''remote'', [''win32'', ''darwin'', ''linux''])]\<rparr>),
     (''claracore'',
        \<lparr>display_name = ''Clara Core AI Engine'', service_type = ''binary'', critical = True,
         autoRestart = True, priority = 3, dependencies = Some [''docker''],
         deploymentModes = Some [''local'', ''remote'', ''docker''],
         platformSupport = Some
           [(''local'', [''win32'', ''darwin'', ''linux'']),
            (''remote'', [''win32'', ''darwin'', ''linux'']),
            (''docker'', [''win32'', ''linux''])]\<rparr>),
     (''comfyui'',
        \<lparr>display_name = ''ComfyUI Image Generation'', service_type = ''docker-container'',
         critical = False, autoRestart = True, priority = 4,
         dependencies = Some [''docker'', ''python-backend''],
         deploymentModes = Some [''docker'', ''manual'', ''remote''],
         platformSupport = Some
           [(''docker'', [''win32'']),
            (''manual'', [''win32'', ''darwin'', ''linux'']),
            (''remote'', [''win32'', ''darwin'', ''linux''])]\<rparr>),
     (''n8n'',
        \<lparr>display_name = ''N8N Workflow Engine'', service_type = ''docker-container'',
         critical = False, autoRestart = True, priority = 5, dependencies = Some [''docker''],
         deploymentModes = Some [''docker'', ''manual'', ''remote''],
         platformSupport = Some
           [(''docker'', [''win32'', ''darwin'', ''linux'']),
            (''manual'', [''win32'', ''darwin'', ''linux'']),
            (''remote'', [''win32'', ''darwin'', ''linux''])]\<rparr>),
     (''mcp'',
        \<lparr>display_name = ''Model Context Protocol'', service_type = ''service'', critical = False,
         autoRestart = True, priority = 6, dependencies = Some [''python-backend''],
         deploymentModes = None, platformSupport = None\<rparr>),
     (''mcp-proxy'',
        \<lparr>display_name = ''MCP HTTP Proxy'', service_type = ''http-service'', critical = False,
         autoRestart = True, priority = 7, dependencies = Some [''mcp''],
         deploymentModes = None, platformSupport = None\<rparr>)]"

subsection \<open>Mode and platform resolution\<close>

text \<open>
  \<^verbatim>\<open>isServiceModeSupported(serviceName, deploymentMode, targetPlatform)\<close>. A name that is no
  key of the table reads as \<^verbatim>\<open>undefined\<close> (or, for a name inherited from
  \<^verbatim>\<open>Object.prototype\<close>, as a value without \<^verbatim>\<open>deploymentModes\<close>): both take the first
  branch. The default of \<^verbatim>\<open>targetPlatform\<close> is the caller's platform; the model takes the
  argument.
\<close>

definition isServiceModeSupported :: "string \<Rightarrow> string \<Rightarrow> string \<Rightarrow> jsval" where
  "isServiceModeSupported serviceName deploymentMode targetPlatform =
    (case map_of SERVICE_DEFINITIONS serviceName of
       None \<Rightarrow> JBool (deploymentMode = ''docker'')
     | Some service \<Rightarrow>
        (case deploymentModes service of
           None \<Rightarrow> JBool (deploymentMode = ''docker'')
         | Some modes \<Rightarrow>
            if deploymentMode \<notin> set modes then JBool False
            else
              (case platformSupport service of
                 Some support \<Rightarrow>
                   (case map_of support deploymentMode of
                      None \<Rightarrow> JUndefined
                    | Some supportedPlatforms \<Rightarrow>
                        JBool (targetPlatform \<in> set supportedPlatforms))
               | None \<Rightarrow> JBool True)))"

text \<open>\<^verbatim>\<open>getSupportedDeploymentModes(serviceName, targetPlatform)\<close>.\<close>

definition getSupportedDeploymentModes :: "string \<Rightarrow> string \<Rightarrow> string list" where
  "getSupportedDeploymentModes serviceName targetPlatform =
    (case map_of SERVICE_DEFINITIONS serviceName of
       None \<Rightarrow> [''docker'']
     | Some service \<Rightarrow>
        (case deploymentModes service of
           None \<Rightarrow> [''docker'']
         | Some modes \<Rightarrow>
            filter (\<lambda>mode. truthy (isServiceModeSupported serviceName mode targetPlatform)) modes))"

subsection \<open>Validation of a service map\<close>

text \<open>
  Reading \<^verbatim>\<open>obj[key]\<close> on an object literal: an own property, a property inherited from
  \<^verbatim>\<open>Object.prototype\<close> (a function or object, truthy, without \<^verbatim>\<open>forEach\<close>), or
  \<^verbatim>\<open>undefined\<close>.
\<close>

datatype 'a property = Own 'a | Inherited | Absent

definition object_prototype_keys :: "string list" where
  "object_prototype_keys =
    [''constructor'', ''__defineGetter__'', ''__defineSetter__'', ''hasOwnProperty'',
     ''__lookupGetter__'', ''__lookupSetter__'', ''isPrototypeOf'', ''propertyIsEnumerable'',
     ''toString'', ''valueOf'', ''__proto__'', ''toLocaleString'']"

definition get_property :: "(string \<times> 'a) list \<Rightarrow> string \<Rightarrow> 'a property" where
  "get_property obj k =
    (case map_of obj k of
       Some v \<Rightarrow> Own v
     | None \<Rightarrow> if k \<in> set object_prototype_keys then Inherited else Absent)"

text \<open>
  The object \<^verbatim>\<open>dependencies\<close>. The first loop runs
  \<^verbatim>\<open>dependencies[name] = services[name].dependencies || []\<close> for every key of
  \<^verbatim>\<open>services\<close>. The assignment creates an own property, except for the key
  \<^verbatim>\<open>__proto__\<close> (an own key of \<^verbatim>\<open>services\<close> when the object comes from
  \<^verbatim>\<open>JSON.parse\<close> or a computed key): there it runs the setter of \<^verbatim>\<open>Object.prototype\<close>,
  which creates no property and makes the array the prototype of \<^verbatim>\<open>dependencies\<close>.
\<close>

record dependency_object =
  own_properties :: "(string \<times> string list) list"
  prototype_array :: "string list option"

definition dependency_table :: "services \<Rightarrow> (string \<times> string list) list" where
  "dependency_table services =
    map (\<lambda>(name, service). (name, case dependencies service of None \<Rightarrow> [] | Some ds \<Rightarrow> ds))
      (filter (\<lambda>(name, service). name \<noteq> ''__proto__'') services)"

definition dependency_prototype :: "services \<Rightarrow> string list option" where
  "dependency_prototype services =
    (case map_of services ''__proto__'' of
       None \<Rightarrow> None
     | Some service \<Rightarrow> Some (case dependencies service of None \<Rightarrow> [] | Some ds \<Rightarrow> ds))"

definition dependencies_of :: "services \<Rightarrow> dependency_object" where
  "dependencies_of services =
    \<lparr>own_properties = dependency_table services,
     prototype_array = dependency_prototype services\<rparr>"

text \<open>
  Reading \<^verbatim>\<open>dependencies[node]\<close>: an array of names (a value with \<^verbatim>\<open>forEach\<close>), another
  value (without \<^verbatim>\<open>forEach\<close>), or \<^verbatim>\<open>undefined\<close>. An own property is an array. Without
  one, the prototype chain answers: with \<^verbatim>\<open>Object.prototype\<close> as the prototype, its keys
  give functions and objects; with an array as the prototype, \<^verbatim>\<open>__proto__\<close> gives that
  array, its indices give its elements (strings), and the keys of \<^verbatim>\<open>Array.prototype\<close>
  (ECMAScript 2023) and of \<^verbatim>\<open>Object.prototype\<close> give numbers and functions.
\<close>

datatype dependency_value = Dependencies "string list" | NoForEach | Undefined

definition array_prototype_keys :: "string list" where
  "array_prototype_keys =
    [''length'', ''constructor'', ''at'', ''concat'', ''copyWithin'', ''fill'', ''find'',
     ''findIndex'', ''findLast'', ''findLastIndex'', ''lastIndexOf'', ''pop'', ''push'',
     ''reverse'', ''shift'', ''unshift'', ''slice'', ''sort'', ''splice'', ''includes'',
     ''indexOf'', ''join'', ''keys'', ''entries'', ''values'', ''forEach'', ''filter'',
     ''flat'', ''flatMap'', ''map'', ''every'', ''some'', ''reduce'', ''reduceRight'',
     ''toLocaleString'', ''toString'', ''toReversed'', ''toSorted'', ''toSpliced'',
     ''with'']"

definition read_dependency :: "dependency_object \<Rightarrow> string \<Rightarrow> dependency_value" where
  "read_dependency obj node =
    (case map_of (own_properties obj) node of
       Some ds \<Rightarrow> Dependencies ds
     | None \<Rightarrow>
        (case prototype_array obj of
           None \<Rightarrow> if node \<in> set object_prototype_keys then NoForEach else Undefined
         | Some arr \<Rightarrow>
             if node = ''__proto__'' then Dependencies arr
             else if node \<in> set (map show_nat [0..<length arr])
                     \<or> node \<in> set array_prototype_keys
                     \<or> node \<in> set object_prototype_keys
             then NoForEach else Undefined))"

text \<open>
  The nodes at which \<^verbatim>\<open>dependencies[node].forEach\<close> is an array's, with that array.
\<close>

definition forEach_table :: "dependency_object \<Rightarrow> (string \<times> string list) list" where
  "forEach_table obj =
    own_properties obj
    @ (case prototype_array obj of None \<Rightarrow> [] | Some arr \<Rightarrow> [(''__proto__'', arr)])"

text \<open>
  The mutable state of the traversal that outlives a call of \<^verbatim>\<open>visit\<close>: the set
  \<^verbatim>\<open>visited\<close> and the array \<^verbatim>\<open>errors\<close>. The set \<^verbatim>\<open>temp\<close> is changed only by the
  bracket \<^verbatim>\<open>temp.add(node); ...; temp.delete(node)\<close> around the visits of the
  dependencies of a node that was not in it, so at every call it holds exactly the nodes
  of the calls in progress; the model passes it as the argument \<open>temp\<close>.
\<close>

record dfs_state =
  visited :: "string list"
  errors :: "string list"

text \<open>
  How a block ends: normally, or by an exception (its message), with the state reached.
\<close>

datatype 'a completion = Normal 'a | Thrown string 'a

function visit ::
    "dependency_object \<Rightarrow> string list \<Rightarrow> string \<Rightarrow> dfs_state \<Rightarrow> dfs_state completion"
  and visit_forEach ::
    "dependency_object \<Rightarrow> string list \<Rightarrow> string list \<Rightarrow> dfs_state \<Rightarrow> dfs_state completion"
where
  "visit deps temp node st =
    (if node \<in> set temp then
       Normal (st\<lparr>errors := errors st @ [''Circular dependency detected involving '' @ node]\<rparr>)
     else if node \<notin> set (visited st) then
       (case read_dependency deps node of
          Dependencies ds \<Rightarrow>
            (case visit_forEach deps (node # temp) ds st of
               Normal st' \<Rightarrow> Normal (st'\<lparr>visited := node # visited st'\<rparr>)
             | Thrown m st' \<Rightarrow> Thrown m st')
        | NoForEach \<Rightarrow> Thrown ''dependencies[node].forEach is not a function'' st
        | Undefined \<Rightarrow> Thrown ''Cannot read properties of undefined (reading 'forEach')'' st)
     else Normal st)"
| "visit_forEach deps temp [] st = Normal st"
| "visit_forEach deps temp (d # ds) st =
    (case visit deps temp d st of
       Normal st' \<Rightarrow> visit_forEach deps temp ds st'
     | Thrown m st' \<Rightarrow> Thrown m st')"
  by pat_completeness auto
termination
proof (relation "inv_image (less_than <*lex*> less_than)
    (\<lambda>x. case x of
       Inl (deps, temp, node, st) \<Rightarrow> (card (fst ` set (forEach_table deps) - set temp), 0)
     | Inr (deps, temp, ds, st) \<Rightarrow>
         (card (fst ` set (forEach_table deps) - set temp), Suc (length ds)))")
  show "wf (inv_image (less_than <*lex*> less_than)
    (\<lambda>x. case x of
       Inl (deps, temp, node, st) \<Rightarrow>
         (card (fst ` set (forEach_table deps) - set temp), 0::nat)
     | Inr (deps, temp, ds, st) \<Rightarrow>
         (card (fst ` set (forEach_table deps) - set temp), Suc (length ds))))"
    by (intro wf_inv_image wf_lex_prod wf_less_than)
next
  fix deps :: dependency_object and temp node and st :: dfs_state and ds
  assume fresh: "node \<notin> set temp" and own: "read_dependency deps node = Dependencies ds"
  have "node \<in> fst ` set (forEach_table deps)"
  proof (cases "map_of (own_properties deps) node")
    case (Some entry)
    then have "(node, entry) \<in> set (own_properties deps)"
      by (rule map_of_SomeD)
    then show ?thesis
      by (force simp: forEach_table_def)
  next
    case None
    with own obtain arr where "prototype_array deps = Some arr" and "node = ''__proto__''"
      by (cases "prototype_array deps")
        (simp_all add: read_dependency_def del: show_nat.simps split: if_splits)
    then show ?thesis
      by (simp add: forEach_table_def)
  qed
  with fresh
  have "fst ` set (forEach_table deps) - set (node # temp)
      \<subset> fst ` set (forEach_table deps) - set temp"
    by auto
  then have "card (fst ` set (forEach_table deps) - set (node # temp))
      < card (fst ` set (forEach_table deps) - set temp)"
    by (intro psubset_card_mono) auto
  then show "(Inr (deps, node # temp, ds, st), Inl (deps, temp, node, st))
      \<in> inv_image (less_than <*lex*> less_than)
        (\<lambda>x. case x of
           Inl (deps, temp, node, st) \<Rightarrow>
             (card (fst ` set (forEach_table deps) - set temp), 0)
         | Inr (deps, temp, ds, st) \<Rightarrow>
             (card (fst ` set (forEach_table deps) - set temp), Suc (length ds)))"
    by simp
qed auto

text \<open>
  The second loop: \<^verbatim>\<open>!services[dep]\<close> holds when \<^verbatim>\<open>dep\<close> is neither a key of
  \<^verbatim>\<open>services\<close> nor inherited.
\<close>

definition missing_dependency_errors :: "services \<Rightarrow> string list" where
  "missing_dependency_errors services =
    concat (map (\<lambda>(serviceName, service).
        (case dependencies service of
           None \<Rightarrow> []
         | Some ds \<Rightarrow>
             map (\<lambda>dep. ''Service '' @ serviceName @ '' depends on '' @ dep
                          @ '' which is not enabled'')
               (filter (\<lambda>dep. get_property services dep = Absent) ds)))
      services)"

text \<open>
  \<^verbatim>\<open>validateServiceConfiguration(services)\<close>: the traversal from every own key of
  \<^verbatim>\<open>dependencies\<close> inside \<^verbatim>\<open>try\<close>, whose \<^verbatim>\<open>catch\<close> appends one message and abandons
  the traversal, then the second loop. The exception messages are those of V8.
\<close>

definition validateServiceConfiguration :: "services \<Rightarrow> string list" where
  "validateServiceConfiguration services =
    (let deps = dependencies_of services;
         found =
           (case visit_forEach deps [] (map fst (own_properties deps))
                   \<lparr>visited = [], errors = []\<rparr> of
              Normal st \<Rightarrow> errors st
            | Thrown m st \<Rightarrow> errors st @ [''Dependency validation failed: '' @ m])
     in found @ missing_dependency_errors services)"

text \<open>A service that declares the dependencies \<open>ds\<close>, for building service maps.\<close>

definition service_depending_on :: "string list \<Rightarrow> service_definition" where
  "service_depending_on ds =
    \<lparr>display_name = [], service_type = ''service'', critical = False, autoRestart = True,
     priority = 1, dependencies = Some ds, deploymentModes = None, platformSupport = None\<rparr>"

text \<open>Two service maps with a cycle and a missing dependency.\<close>

definition cycle_after_missing :: services where
  "cycle_after_missing =
    [(''a'', service_depending_on [''zzz'']),
     (''b'', service_depending_on [''c'']),
     (''c'', service_depending_on [''b''])]"

definition cycle_before_missing :: services where
  "cycle_before_missing =
    [(''b'', service_depending_on [''c'']),
     (''c'', service_depending_on [''b'']),
     (''a'', service_depending_on [''zzz''])]"

text \<open>
  A service map with the own key \<^verbatim>\<open>__proto__\<close>, as \<^verbatim>\<open>JSON.parse\<close> builds it from
  \<^verbatim>\<open>{"__proto__": {"dependencies": ["__proto__"]}}\<close>.
\<close>

definition own_proto_key :: services where
  "own_proto_key = [(''__proto__'', service_depending_on [''__proto__''])]"

subsection \<open>The dependency graph of a service map\<close>

text \<open>
  The edges of a table of dependencies: \<open>(a, b)\<close> when \<open>b\<close> is listed among the
  dependencies of the key \<open>a\<close>. A cycle is a node \<open>n\<close> with \<open>(n, n)\<close> in the transitive
  closure.
\<close>

definition edges :: "(string \<times> string list) list \<Rightarrow> (string \<times> string) set" where
  "edges G = {(a, b). \<exists>ds. map_of G a = Some ds \<and> b \<in> set ds}"

text \<open>The errors pushed by \<^verbatim>\<open>visit\<close> on meeting a node of the recursion stack.\<close>

definition circular_error :: "string \<Rightarrow> bool" where
  "circular_error e = starts_with e ''Circular dependency detected involving ''"

text \<open>
  Every declared dependency is a key of the table (of the service map): no
  \<^verbatim>\<open>dependencies[node]\<close> is read that is not an array.
\<close>

definition resolved_table :: "(string \<times> string list) list \<Rightarrow> bool" where
  "resolved_table G = (\<forall>a b. (a, b) \<in> edges G \<longrightarrow> b \<in> dom (map_of G))"

definition dependencies_enabled :: "services \<Rightarrow> bool" where
  "dependencies_enabled services =
    list_all (\<lambda>(name, service).
        case dependencies service of
          None \<Rightarrow> True
        | Some ds \<Rightarrow> list_all (\<lambda>dep. dep \<in> fst ` set services) ds)
      services"

text \<open>
  The invariant of the traversal: the visited nodes are closed under the edges and none
  of them lies on a cycle.
\<close>

definition closed_visited :: "(string \<times> string list) list \<Rightarrow> dfs_state \<Rightarrow> bool" where
  "closed_visited G st =
    (\<forall>v \<in> set (visited st).
       (\<forall>b. (v, b) \<in> edges G \<longrightarrow> b \<in> set (visited st)) \<and> (v, v) \<notin> (edges G)\<^sup>+)"

text \<open>
  What a call of \<^verbatim>\<open>visit\<close> (or a \<^verbatim>\<open>forEach\<close> over dependencies) with the recursion stack
  \<open>temp\<close> does to the state when all the \<open>targets\<close> it is asked to visit are keys of a
  resolved table: it ends normally; \<^verbatim>\<open>visited\<close> grows, by nodes outside the stack; only
  circular-dependency errors are appended; if the error list is empty afterwards, the
  targets are visited and the invariant is kept; and if the graph has no cycle and every
  node of the stack reaches every target, no error is appended.
\<close>

definition dfs_step ::
    "(string \<times> string list) list \<Rightarrow> string list \<Rightarrow> string set \<Rightarrow> dfs_state
      \<Rightarrow> dfs_state completion \<Rightarrow> bool" where
  "dfs_step G temp targets st r =
    (\<exists>st'. r = Normal st'
       \<and> set (visited st) \<subseteq> set (visited st')
       \<and> (set (visited st') - set (visited st)) \<inter> set temp = {}
       \<and> (\<exists>es. errors st' = errors st @ es \<and> (\<forall>e \<in> set es. circular_error e))
       \<and> (errors st' = [] \<longrightarrow>
            targets \<subseteq> set (visited st') \<and> (closed_visited G st \<longrightarrow> closed_visited G st'))
       \<and> ((\<forall>x \<in> set temp. \<forall>d \<in> targets. (x, d) \<in> (edges G)\<^sup>+)
            \<and> (\<forall>n. (n, n) \<notin> (edges G)\<^sup>+) \<longrightarrow> errors st' = errors st))"

section \<open>The local container manager\<close>

subsection \<open>The machine the manager runs on\<close>

text \<open>
  What the Docker engine answers, as far as the manager reads it: an entry of
  \<^verbatim>\<open>listContainers\<close>, the result of \<^verbatim>\<open>container.inspect()\<close> and an entry of
  \<^verbatim>\<open>listImages\<close>.
\<close>

record container_summary =
  Names :: "string list"

record inspect_info =
  Running :: bool
  Status :: string
  StartedAt :: string
  Image :: string
  Ports :: "(string \<times> string list) list"

record image_summary =
  RepoTags :: "string list option"

record device_mapping =
  PathOnHost :: string
  PathInContainer :: string
  CgroupPermissions :: string

text \<open>The \<^verbatim>\<open>containerConfig\<close> object passed to \<^verbatim>\<open>createContainer\<close>.\<close>

record container_config =
  config_Image :: "string option"
  config_name :: string
  Hostname :: string
  ExposedPorts :: "string list"
  Env :: "string list"
  PortBindings :: "(string \<times> string) list"
  Binds :: "string list"
  RestartPolicy :: string
  Runtime :: "string option"
  Devices :: "device_mapping list"

text \<open>
  The collaborators of the manager: the Docker engine behind \<^verbatim>\<open>dockerode\<close>, the shell
  behind \<^verbatim>\<open>execSync\<close>, the health endpoint, \<^verbatim>\<open>os.platform()\<close> and the runtime's
  \<^verbatim>\<open>isNaN\<close> on strings. A call takes the state \<open>'w\<close> of the machine and returns the new
  one; \<open>Inl m\<close> is a rejected promise or a thrown exception with message \<open>m\<close>.
  \<open>healthGet\<close> is the promise in \<^verbatim>\<open>waitForHealthy\<close>, which resolves to
  \<^verbatim>\<open>res.statusCode === 200\<close>, and to \<^verbatim>\<open>false\<close> on an error or after three seconds.
\<close>

record 'w machine =
  platform :: string
  isNaN :: "string \<Rightarrow> bool"
  execSync :: "string \<Rightarrow> 'w \<Rightarrow> (string + string) \<times> 'w"
  ping :: "'w \<Rightarrow> (string + unit) \<times> 'w"
  listContainers :: "'w \<Rightarrow> (string + container_summary list) \<times> 'w"
  inspect :: "string \<Rightarrow> 'w \<Rightarrow> (string + inspect_info) \<times> 'w"
  startContainer :: "string \<Rightarrow> 'w \<Rightarrow> (string + unit) \<times> 'w"
  createContainer :: "container_config \<Rightarrow> 'w \<Rightarrow> (string + string) \<times> 'w"
  listImages :: "'w \<Rightarrow> (string + image_summary list) \<times> 'w"
  pull :: "string \<Rightarrow> 'w \<Rightarrow> (string + unit) \<times> 'w"
  healthGet :: "'w \<Rightarrow> bool \<times> 'w"

text \<open>The calls made to the machine, recorded in the order they are made.\<close>

datatype machine_call =
    ExecSync string
  | Ping
  | ListContainers
  | Inspect string
  | StartContainer string
  | CreateContainer container_config
  | ListImages
  | Pull string
  | HealthGet


subsection \<open>The manager's state and its operations\<close>

text \<open>
  The fields of a \<^verbatim>\<open>ClaraCoreDockerService\<close> that change; \<^verbatim>\<open>containerName\<close> is the
  constant set by the constructor.
\<close>

record docker_service =
  isRunning :: bool
  gpuType :: "string option"
  detectedImage :: "string option"

definition containerName :: string where
  "containerName = ''clara_core''"

definition new_docker_service :: docker_service where
  "new_docker_service = \<lparr>isRunning = False, gpuType = None, detectedImage = None\<rparr>"

record 'w local_state =
  self :: docker_service
  world :: 'w
  calls :: "machine_call list"

text \<open>
  An operation of the manager: from a state to a returned value or a thrown message,
  and the state reached.
\<close>

type_synonym ('a, 'w) action = "'w local_state \<Rightarrow> (string + 'a) \<times> 'w local_state"

definition return_value :: "'a \<Rightarrow> ('a, 'w) action" where
  "return_value a s = (Inr a, s)"

definition throw_error :: "string \<Rightarrow> ('a, 'w) action" where
  "throw_error m s = (Inl m, s)"

definition and_then :: "('a, 'w) action \<Rightarrow> ('a \<Rightarrow> ('b, 'w) action) \<Rightarrow> ('b, 'w) action" where
  "and_then m f s = (case m s of (Inl e, s') \<Rightarrow> (Inl e, s') | (Inr a, s') \<Rightarrow> f a s')"

definition try_catch :: "('a, 'w) action \<Rightarrow> (string \<Rightarrow> ('a, 'w) action) \<Rightarrow> ('a, 'w) action" where
  "try_catch m h s = (case m s of (Inl e, s') \<Rightarrow> h e s' | (Inr a, s') \<Rightarrow> (Inr a, s'))"

definition update_self :: "(docker_service \<Rightarrow> docker_service) \<Rightarrow> (unit, 'w) action" where
  "update_self f s = (Inr (), s\<lparr>self := f (self s)\<rparr>)"

text \<open>One call to the machine: recorded, and the machine's state replaced.\<close>

definition machine_call :: "machine_call \<Rightarrow> ('w \<Rightarrow> (string + 'a) \<times> 'w) \<Rightarrow> ('a, 'w) action" where
  "machine_call c f s =
    (case f (world s) of (r, w') \<Rightarrow> (r, s\<lparr>world := w', calls := calls s @ [c]\<rparr>))"

text \<open>
  \<^verbatim>\<open>detectGPU()\<close>. Every \<^verbatim>\<open>execSync\<close> stands in its own \<^verbatim>\<open>try\<close>, so the function
  never throws; it sets \<^verbatim>\<open>gpuType\<close> and \<^verbatim>\<open>detectedImage\<close> and returns the pair
  \<^verbatim>\<open>{type, name}\<close>.
\<close>

definition set_gpu :: "string \<Rightarrow> string \<Rightarrow> (string \<times> string, 'w) action" where
  "set_gpu t n =
    and_then
      (update_self (\<lambda>d. d\<lparr>gpuType := Some t,
         detectedImage := Some (''clara17verse/claracore:'' @ t)\<rparr>))
      (\<lambda>_. return_value (t, n))"

definition probe :: "'w machine \<Rightarrow> string \<Rightarrow> (string option, 'w) action" where
  "probe M command =
    try_catch
      (and_then (machine_call (ExecSync command) (execSync M command))
         (\<lambda>out. return_value (Some out)))
      (\<lambda>e. return_value None)"

definition detectGPU :: "'w machine \<Rightarrow> (string \<times> string, 'w) action" where
  "detectGPU M =
    (let cpu = set_gpu ''cpu'' ''CPU Only'';
         nvidia = (\<lambda>otherwise.
           and_then (probe M ''nvidia-smi --query-gpu=name --format=csv,noheader'')
             (\<lambda>nvidiaCheck.
                case nvidiaCheck of
                  Some out \<Rightarrow> if trim out \<noteq> [] then set_gpu ''cuda'' (trim out) else otherwise
                | None \<Rightarrow> otherwise));
         vulkan =
           and_then (probe M ''vulkaninfo --summary'')
             (\<lambda>vulkanCheck.
                case vulkanCheck of
                  Some out \<Rightarrow>
                    if str_includes out ''Vulkan''
                    then set_gpu ''vulkan'' ''Vulkan-compatible GPU'' else cpu
                | None \<Rightarrow> cpu);
         rocm =
           and_then (probe M ''rocm-smi --showproductname'')
             (\<lambda>rocmCheck.
                case rocmCheck of
                  Some out \<Rightarrow>
                    if str_includes out ''GPU''
                    then set_gpu ''rocm'' ''AMD GPU (ROCm)'' else vulkan
                | None \<Rightarrow> vulkan)
     in if platform M = ''win32'' then nvidia cpu
        else if platform M = ''linux'' then nvidia rocm
        else cpu)"

text \<open>\<^verbatim>\<open>ensureDockerRunning()\<close>.\<close>

definition ensureDockerRunning :: "'w machine \<Rightarrow> (bool, 'w) action" where
  "ensureDockerRunning M =
    try_catch
      (and_then (machine_call Ping (ping M)) (\<lambda>_. return_value True))
      (\<lambda>e. throw_error
         ''Docker is not running. Please start Docker Desktop and try again.'')"

text \<open>\<^verbatim>\<open>containerExists()\<close>: a failure of the listing is logged and reads as absent.\<close>

definition containerExists :: "'w machine \<Rightarrow> (bool, 'w) action" where
  "containerExists M =
    try_catch
      (and_then (machine_call ListContainers (listContainers M))
         (\<lambda>containers.
            return_value (\<exists>c \<in> set containers. (''/'' @ containerName) \<in> set (Names c))))
      (\<lambda>e. return_value False)"

text \<open>
  \<^verbatim>\<open>killProcessOnPort8091()\<close>: every command stands in a \<^verbatim>\<open>try\<close>, so the function
  never throws. The waits of two seconds change nothing the model records.
\<close>

fun kill_each :: "'w machine \<Rightarrow> (string \<Rightarrow> string) \<Rightarrow> string list \<Rightarrow> (unit, 'w) action" where
  "kill_each M command [] = return_value ()"
| "kill_each M command (pid # pids) =
    and_then (probe M (command pid)) (\<lambda>_. kill_each M command pids)"

definition killProcessOnPort8091 :: "'w machine \<Rightarrow> (unit, 'w) action" where
  "killProcessOnPort8091 M =
    (if platform M = ''win32'' then
       and_then (probe M ''netstat -ano | findstr :8091 | findstr LISTENING'')
         (\<lambda>netstatOutput.
            case netstatOutput of
              Some out \<Rightarrow>
                if out \<noteq> [] then
                  kill_each M (\<lambda>pid. ''taskkill /F /PID '' @ pid)
                    (filter (\<lambda>pid. pid \<noteq> [] \<and> \<not> isNaN M pid)
                       (map (\<lambda>line. last (split_spaces (trim line)))
                          (split_on CHR 0x0A (trim out))))
                else return_value ()
            | None \<Rightarrow> return_value ())
     else
       and_then (probe M ''lsof -ti:8091'')
         (\<lambda>lsofOutput.
            case lsofOutput of
              Some out \<Rightarrow>
                if trim out \<noteq> [] then
                  kill_each M (\<lambda>pid. ''kill -9 '' @ pid)
                    (filter (\<lambda>pid. pid \<noteq> []) (split_on CHR 0x0A (trim out)))
                else return_value ()
            | None \<Rightarrow> return_value ()))"

text \<open>\<^verbatim>\<open>waitForHealthy(maxAttempts)\<close>: never throws.\<close>

fun waitForHealthy :: "'w machine \<Rightarrow> nat \<Rightarrow> (bool, 'w) action" where
  "waitForHealthy M 0 = return_value False"
| "waitForHealthy M (Suc n) =
    and_then (machine_call HealthGet (\<lambda>w. case healthGet M w of (ok, w') \<Rightarrow> (Inr ok, w')))
      (\<lambda>isHealthy. if isHealthy then return_value True else waitForHealthy M n)"

text \<open>The configuration \<^verbatim>\<open>start\<close> builds for a new container.\<close>

definition containerConfig :: "docker_service \<Rightarrow> container_config" where
  "containerConfig d =
    (let base =
       \<lparr>config_Image = detectedImage d, config_name = containerName,
        Hostname = ''clara-core'', ExposedPorts = [''5890/tcp''],
        Env = [''NODE_ENV=production'', ''CLARA_PORT=5890''],
        PortBindings = [(''5890/tcp'', ''8091'')], Binds = [''claracore:/app/downloads''],
        RestartPolicy = ''unless-stopped'', Runtime = None, Devices = []\<rparr>;
       dri = \<lparr>PathOnHost = ''/dev/dri'', PathInContainer = ''/dev/dri'',
              CgroupPermissions = ''rwm''\<rparr>;
       kfd = \<lparr>PathOnHost = ''/dev/kfd'', PathInContainer = ''/dev/kfd'',
              CgroupPermissions = ''rwm''\<rparr>
     in if gpuType d = Some ''cuda'' then
          base\<lparr>Env := Env base @ [''NVIDIA_VISIBLE_DEVICES=all'',
                   ''NVIDIA_DRIVER_CAPABILITIES=compute,utility''],
               Runtime := Some ''nvidia''\<rparr>
        else if gpuType d = Some ''rocm'' then
          base\<lparr>Devices := [kfd, dri],
               Env := Env base @ [''HSA_OVERRIDE_GFX_VERSION=10.3.0'']\<rparr>
        else if gpuType d = Some ''vulkan'' then
          base\<lparr>Devices := [dri],
               Env := Env base
                 @ [''VK_ICD_FILENAMES=/usr/share/vulkan/icd.d/nvidia_icd.json'']\<rparr>
        else base)"

text \<open>The object \<^verbatim>\<open>start\<close> returns, and its options.\<close>

record start_result =
  success :: bool
  message :: string
  result_gpuType :: "string option"
  result_image :: "string option"

record start_options =
  option_gpuType :: "string option"

definition result_of :: "string \<Rightarrow> bool \<Rightarrow> (start_result, 'w) action" where
  "result_of m with_image s =
    (Inr \<lparr>success = True, message = m, result_gpuType = gpuType (self s),
          result_image = (if with_image then detectedImage (self s) else None)\<rparr>, s)"

text \<open>
  \<^verbatim>\<open>start(options)\<close>. An absent or empty \<^verbatim>\<open>options.gpuType\<close> selects detection. The
  image of a new container is pulled when no local image carries its tag.
\<close>

definition start :: "'w machine \<Rightarrow> start_options \<Rightarrow> (start_result, 'w) action" where
  "start M options =
    try_catch
      (and_then (ensureDockerRunning M) (\<lambda>_.
       and_then (killProcessOnPort8091 M) (\<lambda>_.
       and_then
         (case option_gpuType options of
            Some t \<Rightarrow>
              if t \<noteq> [] then
                update_self (\<lambda>d. d\<lparr>gpuType := Some t,
                  detectedImage := Some (''clara17verse/claracore:'' @ t)\<rparr>)
              else and_then (detectGPU M) (\<lambda>_. return_value ())
          | None \<Rightarrow> and_then (detectGPU M) (\<lambda>_. return_value ())) (\<lambda>_.
       and_then (containerExists M) (\<lambda>present.
         if present then
           and_then (machine_call (Inspect containerName) (inspect M containerName)) (\<lambda>info.
             if Running info then
               and_then (update_self (\<lambda>d. d\<lparr>isRunning := True\<rparr>)) (\<lambda>_.
                 result_of ''Container already running'' False)
             else
               and_then (machine_call (StartContainer containerName)
                           (startContainer M containerName)) (\<lambda>_.
               and_then (update_self (\<lambda>d. d\<lparr>isRunning := True\<rparr>)) (\<lambda>_.
                 result_of ''Container started'' False)))
         else
           and_then (machine_call ListImages (listImages M)) (\<lambda>images.
           and_then (\<lambda>s.
               if \<exists>img \<in> set images.
                    (case RepoTags img of
                       Some tags \<Rightarrow>
                         (case detectedImage (self s) of
                            Some i \<Rightarrow> i \<in> set tags
                          | None \<Rightarrow> False)
                     | None \<Rightarrow> False)
               then return_value () s
               else (case detectedImage (self s) of
                       Some i \<Rightarrow> machine_call (Pull i) (pull M i) s
                     | None \<Rightarrow> machine_call (Pull []) (pull M []) s)) (\<lambda>_.
           and_then (\<lambda>s. machine_call (CreateContainer (containerConfig (self s)))
                            (createContainer M (containerConfig (self s))) s) (\<lambda>container.
           and_then (machine_call (StartContainer container) (startContainer M container))
             (\<lambda>_.
           and_then (update_self (\<lambda>d. d\<lparr>isRunning := True\<rparr>)) (\<lambda>_.
           and_then (waitForHealthy M 30) (\<lambda>_.
             result_of ''ClaraCore started in Docker'' True)))))))))))
      (\<lambda>error.
         and_then (update_self (\<lambda>d. d\<lparr>isRunning := False\<rparr>)) (\<lambda>_.
           if str_includes error ''port'' \<and> str_includes error ''8091'' then
             throw_error
               (''Port 8091 is still in use. Please:'' @ [CHR 0x0A]
                @ ''1. Stop any running ClaraCore instances (Local mode)'' @ [CHR 0x0A]
                @ ''2. Check Task Manager for processes using port 8091'' @ [CHR 0x0A]
                @ ''3. Try restarting the application'')
           else throw_error error))"

text \<open>The object \<^verbatim>\<open>getStatus\<close> returns.\<close>

record container_status =
  exists :: bool
  running :: bool
  status :: "string option"
  started :: "string option"
  status_gpuType :: "string option"
  image :: "string option"
  ports :: "(string \<times> string list) list option"
  error :: "string option"

text \<open>\<^verbatim>\<open>getStatus()\<close>.\<close>

definition getStatus :: "'w machine \<Rightarrow> (container_status, 'w) action" where
  "getStatus M =
    try_catch
      (and_then (containerExists M) (\<lambda>present. \<lambda>s.
         if \<not> present then
           (Inr \<lparr>exists = False, running = False, status = None, started = None,
                 status_gpuType = gpuType (self s), image = detectedImage (self s),
                 ports = None, error = None\<rparr>, s)
         else
           and_then (machine_call (Inspect containerName) (inspect M containerName))
             (\<lambda>info. \<lambda>s'.
                (Inr \<lparr>exists = True, running = Running info, status = Some (Status info),
                      started = Some (StartedAt info), status_gpuType = gpuType (self s'),
                      image = Some (Image info), ports = Some (Ports info),
                      error = None\<rparr>, s')) s))
      (\<lambda>e. return_value
         \<lparr>exists = False, running = False, status = None, started = None,
          status_gpuType = None, image = None, ports = None, error = Some e\<rparr>)"

subsection \<open>The objects \<^verbatim>\<open>getStatus\<close> returns\<close>

text \<open>The three shapes of the object \<^verbatim>\<open>getStatus\<close> returns.\<close>

definition status_absent :: "docker_service \<Rightarrow> container_status" where
  "status_absent d =
    \<lparr>exists = False, running = False, status = None, started = None,
     status_gpuType = gpuType d, image = detectedImage d, ports = None, error = None\<rparr>"

definition status_failed :: "string \<Rightarrow> container_status" where
  "status_failed e =
    \<lparr>exists = False, running = False, status = None, started = None,
     status_gpuType = None, image = None, ports = None, error = Some e\<rparr>"

definition status_present :: "inspect_info \<Rightarrow> docker_service \<Rightarrow> container_status" where
  "status_present info d =
    \<lparr>exists = True, running = Running info, status = Some (Status info),
     started = Some (StartedAt info), status_gpuType = gpuType d,
     image = Some (Image info), ports = Some (Ports info), error = None\<rparr>"

subsection \<open>Steps that create, start and pull nothing\<close>






subsection \<open>Machines\<close>




text \<open>A machine whose Docker engine cannot be reached: every engine call is rejected.\<close>

definition unreachable_machine :: "unit machine" where
  "unreachable_machine =
    \<lparr>platform = ''linux'', isNaN = (\<lambda>s. True),
     execSync = (\<lambda>command w. (Inl ''Command failed'', w)),
     ping = (\<lambda>w. (Inl ''connect ENOENT /var/run/docker.sock'', w)),
     listContainers = (\<lambda>w. (Inl ''connect ENOENT /var/run/docker.sock'', w)),
     inspect = (\<lambda>n w. (Inl ''connect ENOENT /var/run/docker.sock'', w)),
     startContainer = (\<lambda>n w. (Inl ''connect ENOENT /var/run/docker.sock'', w)),
     createContainer = (\<lambda>c w. (Inl ''connect ENOENT /var/run/docker.sock'', w)),
     listImages = (\<lambda>w. (Inl ''connect ENOENT /var/run/docker.sock'', w)),
     pull = (\<lambda>i w. (Inl ''connect ENOENT /var/run/docker.sock'', w)),
     healthGet = (\<lambda>w. (False, w))\<rparr>"

definition initial_state :: "'w \<Rightarrow> 'w local_state" where
  "initial_state w = \<lparr>self = new_docker_service, world = w, calls = []\<rparr>"

section \<open>The remote deployment service\<close>

subsection \<open>The remote host and the session\<close>

text \<open>
  What \<^verbatim>\<open>conn.exec(command, callback)\<close> leads to: the callback receives an error
  (\<open>ChannelError\<close>, with its message), or the stream delivers chunks on standard output
  and on standard error and closes with an exit code.
\<close>

datatype exec_outcome =
    ChannelError string
  | Closed "string list" "string list" int

text \<open>
  The remote host: from its state \<open>'h\<close> and the command line it receives, the outcome, the
  milliseconds that pass until then, and its new state; \<open>None\<close> when neither the callback
  error nor the close event ever arrives.
\<close>

type_synonym 'h host = "'h \<Rightarrow> string \<Rightarrow> (exec_outcome \<times> nat \<times> 'h) option"

text \<open>
  A session: the state of the host, the milliseconds since the operation began, and the
  command lines sent so far.
\<close>

record 'h session =
  remote :: 'h
  clock :: nat
  issued :: "string list"

text \<open>
  An asynchronous function run to its end: it returns a value, throws (a rejected
  promise, with the message of the error), or never settles.
\<close>

datatype ('a, 'h) step =
    Returns 'a "'h session"
  | Throws string "'h session"
  | Hangs "'h session"

type_synonym ('a, 'h) async = "'h session \<Rightarrow> ('a, 'h) step"

text \<open>
  The session a \<^verbatim>\<open>ready\<close> handler starts in, when the event comes \<open>t\<close> milliseconds
  after the operation began, and the session a run ends in.
\<close>

definition session_start :: "'h \<Rightarrow> nat \<Rightarrow> 'h session" where
  "session_start h t = \<lparr>remote = h, clock = t, issued = []\<rparr>"

fun final_session :: "('a, 'h) step \<Rightarrow> 'h session" where
  "final_session (Returns a s) = s"
| "final_session (Throws m s) = s"
| "final_session (Hangs s) = s"

definition resolved :: "'a \<Rightarrow> ('a, 'h) async" where
  "resolved a s = Returns a s"

definition rejected :: "string \<Rightarrow> ('a, 'h) async" where
  "rejected m s = Throws m s"

text \<open>\<^verbatim>\<open>const x = await m; ...\<close>\<close>

definition await :: "('a, 'h) async \<Rightarrow> ('a \<Rightarrow> ('b, 'h) async) \<Rightarrow> ('b, 'h) async" where
  "await m f s =
    (case m s of Returns a s' \<Rightarrow> f a s' | Throws e s' \<Rightarrow> Throws e s' | Hangs s' \<Rightarrow> Hangs s')"

text \<open>\<^verbatim>\<open>try { m } catch (e) { ... }\<close>\<close>

definition catching :: "('a, 'h) async \<Rightarrow> (string \<Rightarrow> ('a, 'h) async) \<Rightarrow> ('a, 'h) async" where
  "catching m h s =
    (case m s of Returns a s' \<Rightarrow> Returns a s' | Throws e s' \<Rightarrow> h e s' | Hangs s' \<Rightarrow> Hangs s')"

text \<open>\<^verbatim>\<open>sleep(ms)\<close>\<close>

definition sleep :: "nat \<Rightarrow> (unit, 'h) async" where
  "sleep ms s = Returns () (s\<lparr>clock := clock s + ms\<rparr>)"

text \<open>
  An asynchronous function settles when, from every session, it returns or throws; it
  throws when, from every session, it throws.
\<close>

definition settles :: "('a, 'h) async \<Rightarrow> bool" where
  "settles f = (\<forall>s. (\<exists>a s'. f s = Returns a s') \<or> (\<exists>m s'. f s = Throws m s'))"

definition throws :: "('a, 'h) async \<Rightarrow> bool" where
  "throws f = (\<forall>s. \<exists>m s'. f s = Throws m s')"

subsection \<open>Command execution\<close>

text \<open>
  The command line \<^verbatim>\<open>execCommand\<close> and \<^verbatim>\<open>execCommandWithOutput\<close> send for
  \<^verbatim>\<open>command\<close>: with a non-empty \<^verbatim>\<open>sudoPassword\<close> and \<^verbatim>\<open>sudo\<close> in the command, the
  password is echoed into \<^verbatim>\<open>sudo -S\<close>. \<open>replace_sudo_prefix\<close> is
  \<^verbatim>\<open>command.replace(/^sudo\s+/, 'sudo -S ')\<close>.
\<close>

definition replace_sudo_prefix :: "string \<Rightarrow> string" where
  "replace_sudo_prefix command =
    (if starts_with command ''sudo''
        \<and> (case drop 4 command of [] \<Rightarrow> False | c # cs \<Rightarrow> is_space c)
     then ''sudo -S '' @ dropWhile is_space (drop 4 command)
     else command)"

definition sudo_command :: "string option \<Rightarrow> string \<Rightarrow> string" where
  "sudo_command sudoPassword command =
    (case sudoPassword of
       None \<Rightarrow> command
     | Some secret \<Rightarrow>
         if secret \<noteq> [] \<and> str_includes command ''sudo'' then
           (let escapedPassword =
                  replace_all apostrophe (apostrophe @ [CHR 0x5C] @ apostrophe @ apostrophe)
                    secret
            in if str_includes command ''|'' \<and> str_includes command ''sudo'' then
                 ''bash -c \"echo '' @ apostrophe @ escapedPassword @ apostrophe @ '' | ''
                 @ replace_all ''sudo'' ''sudo -S'' command @ ''\"''
               else if starts_with (trim command) ''sudo '' then
                 ''echo '' @ apostrophe @ escapedPassword @ apostrophe @ '' | ''
                 @ replace_sudo_prefix command
               else command)
         else command)"

text \<open>
  \<^verbatim>\<open>execCommand(conn, command)\<close> resolves with \<^verbatim>\<open>output || errorOutput\<close>, whatever the
  exit code, and rejects with the error of the callback.
\<close>

definition execCommand :: "'h host \<Rightarrow> string option \<Rightarrow> string \<Rightarrow> (string, 'h) async" where
  "execCommand host sudoPassword command s =
    (let line = sudo_command sudoPassword command;
         sent = s\<lparr>issued := issued s @ [line]\<rparr>
     in case host (remote s) line of
          None \<Rightarrow> Hangs sent
        | Some (ChannelError m, t, h) \<Rightarrow> Throws m (sent\<lparr>remote := h, clock := clock s + t\<rparr>)
        | Some (Closed out err code, t, h) \<Rightarrow>
            Returns (if concat out \<noteq> [] then concat out else concat err)
              (sent\<lparr>remote := h, clock := clock s + t\<rparr>))"

text \<open>
  \<^verbatim>\<open>execCommandWithOutput(conn, command)\<close> resolves with \<^verbatim>\<open>undefined\<close> on exit code 0
  and rejects otherwise, with the trimmed non-empty chunks of standard error, one per
  line, in the message.
\<close>

definition execCommandWithOutput :: "'h host \<Rightarrow> string option \<Rightarrow> string \<Rightarrow> (unit, 'h) async" where
  "execCommandWithOutput host sudoPassword command s =
    (let line = sudo_command sudoPassword command;
         sent = s\<lparr>issued := issued s @ [line]\<rparr>
     in case host (remote s) line of
          None \<Rightarrow> Hangs sent
        | Some (ChannelError m, t, h) \<Rightarrow> Throws m (sent\<lparr>remote := h, clock := clock s + t\<rparr>)
        | Some (Closed out err code, t, h) \<Rightarrow>
            (let stderrOutput =
                   concat (map (\<lambda>chunk. trim chunk @ newline)
                     (filter (\<lambda>chunk. trim chunk \<noteq> []) err))
             in if code = 0 then Returns () (sent\<lparr>remote := h, clock := clock s + t\<rparr>)
                else Throws
                  (if stderrOutput \<noteq> []
                   then ''Command failed with code '' @ show_int code @ '': '' @ stderrOutput
                   else ''Command failed with code '' @ show_int code)
                  (sent\<lparr>remote := h, clock := clock s + t\<rparr>)))"

subsection \<open>Hardware detection\<close>

record hardware_details =
  docker :: bool
  nvidia :: bool
  rocm :: bool
  strix :: bool
  architecture :: string
  dockerVersion :: "string option"
  gpuInfo :: "string option"
  cudaVersion :: "string option"
  rocmVersion :: "string option"
  cpuModel :: "string option"

record hardware =
  detected :: string
  confidence :: string
  details :: hardware_details
  hardware_error :: "string option"
  unsupportedReason :: "string option"

definition initial_details :: hardware_details where
  "initial_details =
    \<lparr>docker = False, nvidia = False, rocm = False, strix = False, architecture = ''unknown'',
     dockerVersion = None, gpuInfo = None, cudaVersion = None, rocmVersion = None,
     cpuModel = None\<rparr>"

abbreviation probe_architecture :: string where
  "probe_architecture \<equiv> ''uname -m''"

abbreviation probe_docker :: string where
  "probe_docker \<equiv> ''docker --version 2>/dev/null''"

abbreviation probe_nvidia :: string where
  "probe_nvidia \<equiv> ''nvidia-smi --query-gpu=name --format=csv,noheader 2>/dev/null''"

abbreviation probe_cuda :: string where
  "probe_cuda \<equiv> ''nvcc --version 2>/dev/null | grep \"release\" | awk '{print $5}'' @ apostrophe"

abbreviation probe_rocm :: string where
  "probe_rocm \<equiv> ''rocm-smi --showproductname 2>/dev/null''"

abbreviation probe_rocm_version :: string where
  "probe_rocm_version \<equiv> ''cat /opt/rocm/.info/version 2>/dev/null''"

abbreviation probe_cpu :: string where
  "probe_cpu \<equiv> ''lscpu | grep \"Model name\"''"

text \<open>
  The first part of \<^verbatim>\<open>detectHardware\<close> fills in \<^verbatim>\<open>details\<close>, block by block. What
  the answers to the architecture, Docker and CPU-model queries add:
\<close>

definition with_architecture :: "string \<Rightarrow> hardware_details \<Rightarrow> hardware_details" where
  "with_architecture archInfo d =
    (if archInfo \<noteq> [] then d\<lparr>architecture := trim archInfo\<rparr> else d)"

definition with_docker :: "string \<Rightarrow> hardware_details \<Rightarrow> hardware_details" where
  "with_docker dockerInfo d =
    (if dockerInfo \<noteq> [] \<and> \<not> str_includes dockerInfo ''command not found''
     then d\<lparr>docker := True, dockerVersion := Some (trim dockerInfo)\<rparr>
     else d)"

definition with_cpu :: "string \<Rightarrow> hardware_details \<Rightarrow> hardware_details" where
  "with_cpu cpuInfo d =
    (if cpuInfo \<noteq> [] then
       (if str_includes cpuInfo ''Ryzen AI Max'' \<or> str_includes cpuInfo ''Strix''
           \<or> str_includes cpuInfo ''8040''
        then d\<lparr>cpuModel := Some (trim (replace_first ''Model name:'' [] cpuInfo)),
               strix := True\<rparr>
        else d\<lparr>cpuModel := Some (trim (replace_first ''Model name:'' [] cpuInfo))\<rparr>)
     else d)"

text \<open>The block \<^verbatim>\<open>// Check NVIDIA GPU\<close>, with its query for the CUDA version.\<close>

definition check_nvidia ::
    "'h host \<Rightarrow> string option \<Rightarrow> hardware_details \<Rightarrow> (hardware_details, 'h) async" where
  "check_nvidia host sudoPassword d =
    await (execCommand host sudoPassword probe_nvidia) (\<lambda>nvidiaInfo.
      if nvidiaInfo \<noteq> [] \<and> \<not> str_includes nvidiaInfo ''command not found''
         \<and> trim nvidiaInfo \<noteq> []
      then
        await (execCommand host sudoPassword probe_cuda) (\<lambda>cudaInfo.
          resolved
            (if cudaInfo \<noteq> [] \<and> trim cudaInfo \<noteq> []
             then d\<lparr>nvidia := True, gpuInfo := Some (trim nvidiaInfo),
                    cudaVersion := Some (replace_first '','' [] (trim cudaInfo))\<rparr>
             else d\<lparr>nvidia := True, gpuInfo := Some (trim nvidiaInfo)\<rparr>))
      else resolved d)"

text \<open>The block \<^verbatim>\<open>// Check AMD ROCm\<close>, with its read of the version file.\<close>

definition check_rocm ::
    "'h host \<Rightarrow> string option \<Rightarrow> hardware_details \<Rightarrow> (hardware_details, 'h) async" where
  "check_rocm host sudoPassword d =
    await (execCommand host sudoPassword probe_rocm) (\<lambda>rocmInfo.
      if rocmInfo \<noteq> [] \<and> \<not> str_includes rocmInfo ''command not found''
         \<and> trim rocmInfo \<noteq> []
      then
        await (execCommand host sudoPassword probe_rocm_version) (\<lambda>versionInfo.
          resolved
            (if versionInfo \<noteq> [] \<and> trim versionInfo \<noteq> []
             then d\<lparr>rocm := True, rocmVersion := Some (trim versionInfo)\<rparr>
             else d\<lparr>rocm := True\<rparr>))
      else resolved d)"

text \<open>The probes, in the order of the source.\<close>

definition probe_hardware :: "'h host \<Rightarrow> string option \<Rightarrow> (hardware_details, 'h) async" where
  "probe_hardware host sudoPassword =
    await (execCommand host sudoPassword probe_architecture) (\<lambda>archInfo.
    await (execCommand host sudoPassword probe_docker) (\<lambda>dockerInfo.
    await (check_nvidia host sudoPassword
             (with_docker dockerInfo (with_architecture archInfo initial_details)))
      (\<lambda>d3.
    await (check_rocm host sudoPassword d3) (\<lambda>d4.
    await (execCommand host sudoPassword probe_cpu) (\<lambda>cpuInfo.
      resolved (with_cpu cpuInfo d4))))))"

text \<open>
  The second part of \<^verbatim>\<open>detectHardware\<close>: the check for ARM, then the recommendation.
\<close>

definition recommendation :: "hardware_details \<Rightarrow> hardware" where
  "recommendation d =
    (if str_includes (architecture d) ''arm'' \<or> str_includes (architecture d) ''aarch'' then
       \<lparr>detected = ''unsupported'', confidence = ''high'', details = d,
        hardware_error = Some (''ARM architecture ('' @ architecture d
          @ '') is not supported yet. ClaraCore Docker images are currently only available for x86_64/amd64 architecture.''),
        unsupportedReason = Some ''arm''\<rparr>
     else if nvidia d then
       \<lparr>detected = ''cuda'',
        confidence = (case cudaVersion d of
                        Some v \<Rightarrow> if v \<noteq> [] then ''high'' else ''medium''
                      | None \<Rightarrow> ''medium''),
        details = d, hardware_error = None, unsupportedReason = None\<rparr>
     else if strix d then
       \<lparr>detected = ''strix'', confidence = ''high'', details = d, hardware_error = None,
        unsupportedReason = None\<rparr>
     else if rocm d then
       \<lparr>detected = ''rocm'', confidence = ''high'', details = d, hardware_error = None,
        unsupportedReason = None\<rparr>
     else
       \<lparr>detected = ''cpu'', confidence = ''high'', details = d, hardware_error = None,
        unsupportedReason = None\<rparr>)"

text \<open>
  \<^verbatim>\<open>detectHardware(conn)\<close>; its \<^verbatim>\<open>catch\<close> logs the error and throws it again.
\<close>

definition detectHardware :: "'h host \<Rightarrow> string option \<Rightarrow> (hardware, 'h) async" where
  "detectHardware host sudoPassword =
    catching
      (await (probe_hardware host sudoPassword) (\<lambda>d. resolved (recommendation d)))
      (\<lambda>error. rejected error)"

subsection \<open>Prerequisites on the remote host\<close>

text \<open>\<^verbatim>\<open>checkDocker(conn)\<close>: truthy or falsy; an error of the command reads as absent.\<close>

definition checkDocker :: "'h host \<Rightarrow> string option \<Rightarrow> (bool, 'h) async" where
  "checkDocker host sudoPassword =
    catching
      (await (execCommand host sudoPassword ''docker --version 2>/dev/null'') (\<lambda>result.
         resolved (result \<noteq> [] \<and> \<not> str_includes result ''command not found'')))
      (\<lambda>e. resolved False)"

text \<open>\<^verbatim>\<open>detectDistro(osRelease)\<close>\<close>

definition detectDistro :: "string \<Rightarrow> string" where
  "detectDistro osRelease =
    (if str_includes osRelease ''Ubuntu'' then ''Ubuntu''
     else if str_includes osRelease ''Debian'' then ''Debian''
     else if str_includes osRelease ''Fedora'' then ''Fedora''
     else if str_includes osRelease ''CentOS'' then ''CentOS''
     else if str_includes osRelease ''Red Hat'' then ''RHEL''
     else if str_includes osRelease ''Arch'' then ''Arch Linux''
     else ''Unknown Linux'')"

text \<open>\<^verbatim>\<open>installDocker(conn)\<close>\<close>

definition installDocker :: "'h host \<Rightarrow> string option \<Rightarrow> (unit, 'h) async" where
  "installDocker host sudoPassword =
    catching
      (await (execCommand host sudoPassword ''cat /etc/os-release'') (\<lambda>osRelease.
       await (execCommand host sudoPassword
                ''curl -fsSL https://get.docker.com -o /tmp/get-docker.sh'') (\<lambda>_.
       await (execCommandWithOutput host sudoPassword ''sudo sh /tmp/get-docker.sh'') (\<lambda>_.
       await (execCommand host sudoPassword ''rm /tmp/get-docker.sh'') (\<lambda>_.
       await (execCommand host sudoPassword ''whoami'') (\<lambda>username.
       let user = (if trim username \<noteq> [] then trim username else ''ubuntu'') in
       await (execCommand host sudoPassword (''sudo usermod -aG docker '' @ user)) (\<lambda>_.
       await (execCommand host sudoPassword ''sudo systemctl start docker'') (\<lambda>_.
       await (execCommand host sudoPassword ''sudo systemctl enable docker'') (\<lambda>_.
         resolved ())))))))))
      (\<lambda>error. rejected (''Failed to install Docker: '' @ error))"

text \<open>
  \<^verbatim>\<open>installNvidiaToolkitApt(conn)\<close> and \<^verbatim>\<open>installNvidiaToolkitYum(conn)\<close>: the commands
  of the list, one after the other.
\<close>

fun run_each :: "'h host \<Rightarrow> string option \<Rightarrow> string list \<Rightarrow> (unit, 'h) async" where
  "run_each host sudoPassword [] = resolved ()"
| "run_each host sudoPassword (cmd # cmds) =
    await (execCommandWithOutput host sudoPassword cmd) (\<lambda>_. run_each host sudoPassword cmds)"

definition installNvidiaToolkitApt :: "'h host \<Rightarrow> string option \<Rightarrow> (unit, 'h) async" where
  "installNvidiaToolkitApt host sudoPassword =
    run_each host sudoPassword
      [''curl -fsSL https://nvidia.github.io/libnvidia-container/gpgkey | sudo gpg --dearmor -o /usr/share/keyrings/nvidia-container-toolkit-keyring.gpg'',
       ''curl -s -L https://nvidia.github.io/libnvidia-container/stable/deb/nvidia-container-toolkit.list | sed 's#deb https://#deb [signed-by=/usr/share/keyrings/nvidia-container-toolkit-keyring.gpg] https://#g' | sudo tee /etc/apt/sources.list.d/nvidia-container-toolkit.list'',
       ''sudo apt-get update'',
       ''sudo apt-get install -y nvidia-container-toolkit'']"

definition installNvidiaToolkitYum :: "'h host \<Rightarrow> string option \<Rightarrow> (unit, 'h) async" where
  "installNvidiaToolkitYum host sudoPassword =
    run_each host sudoPassword
      [''curl -s -L https://nvidia.github.io/libnvidia-container/stable/rpm/nvidia-container-toolkit.repo | sudo tee /etc/yum.repos.d/nvidia-container-toolkit.repo'',
       ''sudo yum install -y nvidia-container-toolkit'']"

text \<open>\<^verbatim>\<open>setupCuda(conn)\<close>; its \<^verbatim>\<open>catch\<close> logs the error and throws it again.\<close>

definition setupCuda :: "'h host \<Rightarrow> string option \<Rightarrow> (unit, 'h) async" where
  "setupCuda host sudoPassword =
    await (execCommand host sudoPassword ''nvidia-smi 2>/dev/null'') (\<lambda>nvidiaCheck.
    if nvidiaCheck = [] \<or> str_includes nvidiaCheck ''command not found'' then
      rejected ''NVIDIA drivers not found. Please install NVIDIA drivers first.''
    else
      await (execCommand host sudoPassword ''which nvidia-ctk 2>/dev/null'') (\<lambda>hasToolkit.
      await
        (if hasToolkit = [] \<or> trim hasToolkit = [] then
           await (execCommand host sudoPassword ''which apt-get 2>/dev/null'') (\<lambda>hasApt.
           await (execCommand host sudoPassword ''which yum 2>/dev/null'') (\<lambda>hasYum.
             if hasApt \<noteq> [] \<and> trim hasApt \<noteq> [] then installNvidiaToolkitApt host sudoPassword
             else if hasYum \<noteq> [] \<and> trim hasYum \<noteq> [] then
               installNvidiaToolkitYum host sudoPassword
             else rejected ''Unsupported package manager. Only apt and yum are supported.''))
         else resolved ()) (\<lambda>_.
      await (execCommand host sudoPassword
               ''sudo nvidia-ctk runtime configure --runtime=docker'') (\<lambda>_.
      await (execCommand host sudoPassword ''sudo systemctl daemon-reload'') (\<lambda>_.
      await (execCommand host sudoPassword ''sudo systemctl restart docker'') (\<lambda>_.
      await (sleep 3000) (\<lambda>_.
      await (execCommand host sudoPassword ''docker context show 2>/dev/null'')
        (\<lambda>dockerContext.
      await
        (if dockerContext \<noteq> [] \<and> str_includes dockerContext ''desktop-linux'' then
           await (execCommand host sudoPassword ''docker context use default'') (\<lambda>_.
           await (execCommand host sudoPassword ''whoami'') (\<lambda>username.
           await (execCommand host sudoPassword
                    (''sudo usermod -aG docker '' @ trim username)) (\<lambda>_.
             resolved ())))
         else resolved ()) (\<lambda>_.
      await (execCommand host sudoPassword ''docker info 2>/dev/null | grep -i runtime'')
        (\<lambda>runtimeCheck. resolved ()))))))))))"

text \<open>\<^verbatim>\<open>setupRocm(conn)\<close>\<close>

definition setupRocm :: "'h host \<Rightarrow> string option \<Rightarrow> (unit, 'h) async" where
  "setupRocm host sudoPassword =
    await (execCommand host sudoPassword
             ''test -e /dev/kfd && echo \"exists\" || echo \"missing\"'') (\<lambda>kfdCheck.
    if trim kfdCheck = ''missing'' then
      rejected (''ROCm device /dev/kfd not found. Please install ROCm drivers first.''
        @ newline @ newline
        @ ''Installation guide: https://rocmdocs.amd.com/en/latest/Installation_Guide/Installation-Guide.html'')
    else
      await (execCommand host sudoPassword
               ''test -e /dev/dri && echo \"exists\" || echo \"missing\"'') (\<lambda>driCheck.
      if trim driCheck = ''missing'' then
        rejected
          ''Device /dev/dri not found. AMD GPU drivers may not be installed correctly.''
      else
        await (execCommand host sudoPassword ''whoami'') (\<lambda>username.
        await (execCommand host sudoPassword
                 (''sudo usermod -a -G video,render '' @ trim username)) (\<lambda>_.
          resolved ()))))"

text \<open>\<^verbatim>\<open>setupStrix(conn)\<close>\<close>

definition setupStrix :: "'h host \<Rightarrow> string option \<Rightarrow> (unit, 'h) async" where
  "setupStrix host sudoPassword =
    await (execCommand host sudoPassword
             ''test -e /dev/dri && echo \"exists\" || echo \"missing\"'') (\<lambda>driCheck.
    if trim driCheck = ''missing'' then
      rejected (''Device /dev/dri not found. AMD GPU drivers (amdgpu) may not be installed.''
        @ newline @ newline
        @ ''Please ensure the Linux kernel has amdgpu drivers loaded.'')
    else
      await (execCommand host sudoPassword ''which vulkaninfo 2>/dev/null'') (\<lambda>vulkanCheck.
      await
        (if vulkanCheck = [] \<or> trim vulkanCheck = [] then
           await (execCommand host sudoPassword ''cat /etc/os-release'') (\<lambda>osRelease.
           await
             (if str_includes osRelease ''Ubuntu'' \<or> str_includes osRelease ''Debian'' then
                await (execCommandWithOutput host sudoPassword ''sudo apt-get update'') (\<lambda>_.
                  execCommandWithOutput host sudoPassword
                    ''sudo apt-get install -y mesa-vulkan-drivers vulkan-tools libvulkan1'')
              else if str_includes osRelease ''Fedora'' \<or> str_includes osRelease ''Red Hat''
                      \<or> str_includes osRelease ''CentOS'' then
                execCommandWithOutput host sudoPassword
                  ''sudo dnf install -y mesa-vulkan-drivers vulkan-tools vulkan-loader''
              else if str_includes osRelease ''Arch'' then
                execCommandWithOutput host sudoPassword
                  ''sudo pacman -S --noconfirm vulkan-radeon vulkan-tools''
              else
                rejected (''Unsupported distribution: '' @ detectDistro osRelease
                  @ ''. Please install mesa-vulkan-drivers and vulkan-tools manually.''))
             (\<lambda>_.
           await (execCommand host sudoPassword
                    ''vulkaninfo --summary 2>&1 | grep -i \"Vulkan Instance Version\" || echo \"failed\"'')
             (\<lambda>vulkanVerify. resolved ())))
         else
           await (execCommand host sudoPassword
                    ''vulkaninfo --summary 2>&1 | grep -i \"deviceName\" || echo \"none\"'')
             (\<lambda>vulkanDevices. resolved ())) (\<lambda>_.
      await (execCommand host sudoPassword ''whoami'') (\<lambda>username.
      await (execCommand host sudoPassword
               (''sudo usermod -a -G video,render '' @ trim username)) (\<lambda>_.
        resolved ())))))"

subsection \<open>Deployment\<close>

text \<open>\<^verbatim>\<open>buildDockerRunCommand(hardwareType, containerName, imageName)\<close>\<close>

definition buildDockerRunCommand :: "string \<Rightarrow> string \<Rightarrow> string \<Rightarrow> string" where
  "buildDockerRunCommand hardwareType name imageName =
    (let baseCmd = ''docker run -d --name '' @ name
           @ '' --network clara_network --restart unless-stopped -p 8091:5890 -p 5890:5890 --add-host=host.docker.internal:172.17.0.1'';
         volume = ''-v claracore-'' @ hardwareType @ ''-downloads:/app/downloads''
     in if hardwareType = ''cuda'' then
          baseCmd @ '' --gpus all '' @ volume @ '' '' @ imageName
        else if hardwareType = ''rocm'' then
          baseCmd
          @ '' --device=/dev/kfd --device=/dev/dri --group-add video --ipc=host --cap-add=SYS_PTRACE --security-opt seccomp=unconfined ''
          @ volume @ '' '' @ imageName
        else if hardwareType = ''strix'' then
          baseCmd @ '' --device=/dev/dri --group-add video --security-opt seccomp=unconfined ''
          @ volume @ '' '' @ imageName
        else baseCmd @ '' '' @ volume @ '' '' @ imageName)"

text \<open>The configuration of the remote operations.\<close>

record remote_config =
  host_address :: string
  port :: "nat option"
  username :: string
  password :: string
  hardwareType :: string

text \<open>The fields of the object \<^verbatim>\<open>deploy\<close> resolves with on success.\<close>

record deployment =
  url :: string
  deployed_containerName :: string
  deployed_hardwareType :: string
  gpuAvailable :: bool
  fallbackToCpu :: bool
  deployment_message :: string

text \<open>
  Step 2 of \<^verbatim>\<open>deploy\<close>: the prerequisites of the requested hardware; when they throw,
  the error is logged and the CPU variant is chosen. It yields
  \<^verbatim>\<open>actualHardwareType\<close> and \<^verbatim>\<open>gpuAvailable\<close>.
\<close>

definition install_prerequisites ::
    "'h host \<Rightarrow> string option \<Rightarrow> string \<Rightarrow> (string \<times> bool, 'h) async" where
  "install_prerequisites host sudoPassword requested =
    (if requested \<noteq> ''cpu'' then
       catching
         (if requested = ''cuda'' then
            await (setupCuda host sudoPassword) (\<lambda>_. resolved (requested, True))
          else if requested = ''rocm'' then
            await (setupRocm host sudoPassword) (\<lambda>_. resolved (requested, True))
          else if requested = ''strix'' then
            await (setupStrix host sudoPassword) (\<lambda>_. resolved (requested, True))
          else resolved (requested, False))
         (\<lambda>gpuError. resolved (''cpu'', False))
     else resolved (requested, False))"

text \<open>
  The body of the \<^verbatim>\<open>try\<close> in the \<^verbatim>\<open>ready\<close> handler of \<^verbatim>\<open>deploy\<close>, up to the object
  it resolves with. \<^verbatim>\<open>this.sudoPassword\<close> is \<^verbatim>\<open>config.password\<close> throughout.
\<close>

definition deploy_steps :: "'h host \<Rightarrow> remote_config \<Rightarrow> (deployment, 'h) async" where
  "deploy_steps host config =
    (let sudoPassword = Some (password config);
         requested = hardwareType config;
         containerName = ''claracore-'' @ requested
     in
     await (checkDocker host sudoPassword) (\<lambda>hasDocker.
     await (if \<not> hasDocker then installDocker host sudoPassword else resolved ()) (\<lambda>_.
     await (execCommand host sudoPassword
              ''docker network ls --filter name=clara_network --format \"{{.Name}}\"'')
       (\<lambda>networkCheck.
     await
       (if networkCheck = [] \<or> \<not> str_includes networkCheck ''clara_network'' then
          await (execCommand host sudoPassword
                   ''docker network create clara_network --driver bridge --subnet 172.25.0.0/16'')
            (\<lambda>_. resolved ())
        else resolved ()) (\<lambda>_.
     await (install_prerequisites host sudoPassword requested)
       (\<lambda>(actualHardwareType, gpuAvailable).
     let finalImageName = ''clara17verse/claracore:'' @ actualHardwareType;
         finalContainerName = ''claracore-'' @ actualHardwareType
     in
     await (execCommand host sudoPassword
              (''docker stop '' @ finalContainerName @ '' 2>/dev/null || true'')) (\<lambda>_.
     await (execCommand host sudoPassword
              (''docker rm '' @ finalContainerName @ '' 2>/dev/null || true'')) (\<lambda>_.
     await (execCommandWithOutput host sudoPassword (''docker pull '' @ finalImageName)) (\<lambda>_.
     await
       (catching
          (execCommand host sudoPassword
             (buildDockerRunCommand actualHardwareType finalContainerName finalImageName))
          (\<lambda>runError. rejected (''Failed to start container: '' @ runError))) (\<lambda>runResult.
     await (sleep 5000) (\<lambda>_.
     await (execCommand host sudoPassword (''docker ps -q -f name='' @ containerName))
       (\<lambda>isRunning.
     await
       (if isRunning = [] \<or> trim isRunning = [] then
          await (execCommand host sudoPassword
                   (''docker logs '' @ containerName
                    @ '' 2>&1 || echo \"No logs available\"'')) (\<lambda>logs.
          await (execCommand host sudoPassword
                   (''docker inspect '' @ containerName
                    @ '' --format='{{.State.Status}}: {{.State.Error}}' 2>&1 || echo \"Container not found\"''))
            (\<lambda>inspectResult.
             rejected (''Container failed to start.'' @ newline @ newline @ ''Status: ''
               @ inspectResult @ newline @ newline @ ''Logs:'' @ newline @ take 500 logs)))
        else resolved ()) (\<lambda>_.
     await (execCommand host sudoPassword
              ''curl -sf http://localhost:5890/health 2>&1 || echo \"Health check not available\"'')
       (\<lambda>healthCheck.
        resolved
          \<lparr>url = ''http://'' @ host_address config @ '':5890'',
           deployed_containerName = finalContainerName,
           deployed_hardwareType = actualHardwareType,
           gpuAvailable = gpuAvailable,
           fallbackToCpu = (requested \<noteq> ''cpu'' \<and> actualHardwareType = ''cpu''),
           deployment_message =
             (if gpuAvailable then
                ''Successfully deployed with '' @ toUpperCase actualHardwareType
                @ '' acceleration''
              else ''Deployed in CPU mode''
                @ (if requested \<noteq> ''cpu'' then '' (GPU unavailable)'' else []))\<rparr>
       ))))))))))))))"

text \<open>The entries of the list \<^verbatim>\<open>monitorRemoteServices\<close> builds.\<close>

record service_status =
  service_name :: string
  service_hardwareType :: string
  service_state :: string
  isHealthy :: bool
  service_ports :: string
  service_url :: "string option"

text \<open>
  The object \<^verbatim>\<open>monitorRemoteServices\<close> resolves with, without its \<^verbatim>\<open>timestamp\<close> (the
  time of day is not modelled).
\<close>

record monitor_report =
  report_host :: string
  services_found :: "service_status list"
  totalServices :: nat
  runningServices :: nat
  healthyServices :: nat

text \<open>
  The loop over the lines of the container list. A line without \<^verbatim>\<open>|\<close> leaves
  \<^verbatim>\<open>status\<close> undefined, and \<^verbatim>\<open>status.toLowerCase()\<close> throws a \<^verbatim>\<open>TypeError\<close> (the
  message is V8's).
\<close>

fun monitor_lines ::
    "'h host \<Rightarrow> string option \<Rightarrow> remote_config \<Rightarrow> string list \<Rightarrow> service_status list
      \<Rightarrow> (service_status list, 'h) async" where
  "monitor_lines host sudoPassword config [] services = resolved services"
| "monitor_lines host sudoPassword config (line # lines) services =
    (case split_on CHR ''|'' line of
       name # status_text # rest \<Rightarrow>
         (let isRunning = str_includes (toLowerCase status_text) ''up'';
              port_text = (case rest of [] \<Rightarrow> [] | p # ps \<Rightarrow> p)
          in
          await
            (if isRunning then
               catching
                 (await (execCommand host sudoPassword
                           ''curl -sf http://localhost:5890/health 2>&1'') (\<lambda>healthCheck.
                    resolved (healthCheck \<noteq> []
                       \<and> \<not> str_includes healthCheck ''Failed to connect'')))
                 (\<lambda>e. resolved False)
             else resolved False) (\<lambda>healthy.
          monitor_lines host sudoPassword config lines
            (services @
              [\<lparr>service_name = name,
                service_hardwareType = replace_first ''claracore-'' [] name,
                service_state = (if isRunning then ''running'' else ''stopped''),
                isHealthy = (if isRunning then healthy else False),
                service_ports = (if port_text \<noteq> [] then port_text else ''N/A''),
                service_url =
                  (if isRunning then Some (''http://'' @ host_address config @ '':5890'')
                   else None)\<rparr>])))
     | _ \<Rightarrow> rejected ''Cannot read properties of undefined (reading 'toLowerCase')'')"

definition monitor_steps ::
    "'h host \<Rightarrow> string option \<Rightarrow> remote_config \<Rightarrow> (monitor_report, 'h) async" where
  "monitor_steps host sudoPassword config =
    await (execCommand host sudoPassword
             ''docker ps -a --filter \"name=claracore-\" --format \"{{.Names}}|{{.Status}}|{{.Ports}}\"'')
      (\<lambda>containerList.
    await
      (if containerList \<noteq> [] \<and> trim containerList \<noteq> [] then
         monitor_lines host sudoPassword config (split_on CHR 0x0A (trim containerList)) []
       else resolved []) (\<lambda>services.
      resolved
        \<lparr>report_host = host_address config, services_found = services,
         totalServices = length services,
         runningServices = length (filter (\<lambda>s. service_state s = ''running'') services),
         healthyServices = length (filter isHealthy services)\<rparr>))"

subsection \<open>The three operations\<close>

text \<open>
  What \<^verbatim>\<open>conn.connect\<close> leads to: the event \<^verbatim>\<open>ready\<close>, or the event \<^verbatim>\<open>error\<close> with
  the message, level and code of the error, after the given milliseconds. The connection
  emits one of the two events, once; an \<^verbatim>\<open>error\<close> event after \<^verbatim>\<open>ready\<close> is not
  modelled (a command that fails or never finishes is, by the host).
\<close>

record connection_error =
  error_message :: string
  error_level :: "string option"
  error_code :: "string option"

datatype connection = Ready nat | ConnectionError connection_error nat

text \<open>
  The object a remote operation resolves with: \<^verbatim>\<open>{success: true, ...}\<close> with its other
  fields, or \<^verbatim>\<open>{success: false, error}\<close>. A promise settles by \<^verbatim>\<open>resolve\<close> or by
  \<^verbatim>\<open>reject\<close> (with the message of the error).
\<close>

datatype 'a api_result = Success 'a | Failure string

datatype 'a settled = Resolved 'a | Rejected string

text \<open>The field of a \<^verbatim>\<open>ClaraCoreRemoteService\<close> that changes.\<close>

record remote_service =
  sudoPassword :: "string option"

definition new_remote_service :: remote_service where
  "new_remote_service = \<lparr>sudoPassword = None\<rparr>"

text \<open>The error messages of \<^verbatim>\<open>deploy\<close>, in its \<^verbatim>\<open>catch\<close> and in its \<^verbatim>\<open>error\<close> handler.\<close>

definition deploy_error_message :: "string \<Rightarrow> string" where
  "deploy_error_message m =
    (if str_includes m ''incorrect password'' then
       ''Incorrect sudo password. Please verify your SSH password and try again.''
     else if str_includes m ''Permission denied'' then
       ''SSH authentication failed. Please check your credentials.''
     else m)"

definition connection_error_message :: "connection_error \<Rightarrow> string" where
  "connection_error_message err =
    (if error_level err = Some ''client-authentication'' then
       ''SSH authentication failed. Please check your username and password.''
     else if error_code err = Some ''ECONNREFUSED'' then
       ''Connection refused. Please check the host and port.''
     else if error_code err = Some ''ETIMEDOUT'' \<or> error_code err = Some ''ENOTFOUND'' then
       ''Connection timeout. Please check the host address and your network connection.''
     else error_message err)"

text \<open>
  \<^verbatim>\<open>deploy(config)\<close>, from the connection's behaviour, the host and its state, to the
  settlement of the promise and the service as it is at that moment. The timer of five
  minutes fires when the event of the connection, or the end of the handler, has not come
  before it; its callback rejects the promise and leaves \<^verbatim>\<open>sudoPassword\<close> as it is.
\<close>

definition deploy ::
    "'h host \<Rightarrow> connection \<Rightarrow> 'h \<Rightarrow> remote_config \<Rightarrow> remote_service
      \<Rightarrow> deployment api_result settled \<times> remote_service" where
  "deploy host connection h config service =
    (let armed = service\<lparr>sudoPassword := Some (password config)\<rparr>;
         cleared = armed\<lparr>sudoPassword := None\<rparr>;
         timeout = (Rejected ''Deployment timeout after 5 minutes'', armed)
     in case connection of
          ConnectionError err t \<Rightarrow>
            if t < 300000 then (Resolved (Failure (connection_error_message err)), cleared)
            else timeout
        | Ready t \<Rightarrow>
            if t < 300000 then
              (case deploy_steps host config (session_start h t) of
                 Returns d s \<Rightarrow>
                   if clock s < 300000 then (Resolved (Success d), cleared) else timeout
               | Throws m s \<Rightarrow>
                   if clock s < 300000
                   then (Resolved (Failure (deploy_error_message m)), cleared)
                   else timeout
               | Hangs s \<Rightarrow> timeout)
            else timeout)"

text \<open>
  \<^verbatim>\<open>testSetup(config)\<close>, with its timer of thirty seconds. The commands run with the
  \<^verbatim>\<open>sudoPassword\<close> the service holds.
\<close>

definition testSetup ::
    "'h host \<Rightarrow> connection \<Rightarrow> 'h \<Rightarrow> remote_config \<Rightarrow> remote_service
      \<Rightarrow> hardware api_result settled" where
  "testSetup host connection h config service =
    (let timeout = Rejected ''Connection timeout after 30 seconds''
     in case connection of
          ConnectionError err t \<Rightarrow>
            if t < 30000 then Resolved (Failure (error_message err)) else timeout
        | Ready t \<Rightarrow>
            if t < 30000 then
              (case detectHardware host (sudoPassword service) (session_start h t) of
                 Returns hw s \<Rightarrow> if clock s < 30000 then Resolved (Success hw) else timeout
               | Throws m s \<Rightarrow> if clock s < 30000 then Resolved (Failure m) else timeout
               | Hangs s \<Rightarrow> timeout)
            else timeout)"

text \<open>
  \<^verbatim>\<open>monitorRemoteServices(config)\<close>, with its timer of fifteen seconds: the handler's
  \<^verbatim>\<open>catch\<close> and the \<^verbatim>\<open>error\<close> handler of the connection reject the promise.
\<close>

definition monitorRemoteServices ::
    "'h host \<Rightarrow> connection \<Rightarrow> 'h \<Rightarrow> remote_config \<Rightarrow> remote_service
      \<Rightarrow> monitor_report api_result settled" where
  "monitorRemoteServices host connection h config service =
    (let timeout = Rejected ''Monitor timeout after 15 seconds''
     in case connection of
          ConnectionError err t \<Rightarrow>
            if t < 15000 then Rejected (error_message err) else timeout
        | Ready t \<Rightarrow>
            if t < 15000 then
              (case monitor_steps host (sudoPassword service) config (session_start h t) of
                 Returns report s \<Rightarrow>
                   if clock s < 15000 then Resolved (Success report) else timeout
               | Throws m s \<Rightarrow> if clock s < 15000 then Rejected m else timeout
               | Hangs s \<Rightarrow> timeout)
            else timeout)"

subsection \<open>Hosts and configurations\<close>

text \<open>
  A host that answers: every command it receives runs to its close event (with whatever
  output and exit code), and the channel never fails.
\<close>

definition answers :: "'h host \<Rightarrow> bool" where
  "answers host = (\<forall>h c. \<exists>out err code t h'. host h c = Some (Closed out err code, t, h'))"

text \<open>
  A host that responds: every command it receives ends, by its close event or by an error
  of the channel. The channel of the command \<open>c\<close> fails when the host answers \<open>c\<close> with
  an error of the channel, whatever its state.
\<close>

definition responds :: "'h host \<Rightarrow> bool" where
  "responds host = (\<forall>h c. host h c \<noteq> None)"

definition channel_fails :: "'h host \<Rightarrow> string \<Rightarrow> bool" where
  "channel_fails host c = (\<forall>h. \<exists>m t h'. host h c = Some (ChannelError m, t, h'))"

definition example_config :: "string \<Rightarrow> remote_config" where
  "example_config requested =
    \<lparr>host_address = ''10.0.0.5'', port = None, username = ''ubuntu'', password = ''hunter2'',
     hardwareType = requested\<rparr>"

text \<open>
  A host with Docker on which \<^verbatim>\<open>docker pull\<close> never finishes (a stalled download);
  every other command closes after 200 ms.
\<close>

definition stalled_pull_host :: "unit host" where
  "stalled_pull_host h c =
    (if starts_with c ''docker pull '' then None
     else if c = ''docker --version 2>/dev/null''
       then Some (Closed [''Docker version 24.0.7, build afdd53b''] [] 0, 200, h)
     else Some (Closed [] [] 0, 200, h))"

text \<open>
  A host with Docker and without NVIDIA drivers. Its state is the list of the running
  containers: \<^verbatim>\<open>docker run -d --name claracore-cpu ...\<close> starts the CPU container, and
  \<^verbatim>\<open>docker ps -q -f name=N\<close> prints an identifier when \<^verbatim>\<open>N\<close> is running.
\<close>

definition cpu_only_host :: "string list host" where
  "cpu_only_host containers c =
    (if c = ''docker --version 2>/dev/null'' then
       Some (Closed [''Docker version 24.0.7, build afdd53b''] [] 0, 200, containers)
     else if c = ''nvidia-smi 2>/dev/null'' then Some (Closed [] [] 127, 200, containers)
     else if starts_with c ''docker run -d --name claracore-cpu '' then
       Some (Closed [''3f2a9c81d0aa''] [] 0, 2000, ''claracore-cpu'' # containers)
     else if starts_with c ''docker ps -q -f name='' then
       Some (Closed (if drop 21 c \<in> set containers then [''3f2a9c81d0aa''] else []) [] 0,
             200, containers)
     else if starts_with c ''docker logs '' then
       Some (Closed [''No logs available''] [] 0, 200, containers)
     else if starts_with c ''docker inspect '' then
       Some (Closed [''Container not found''] [] 0, 200, containers)
     else Some (Closed [] [] 0, 200, containers))"

text \<open>
  Two ARM hosts: one without Docker or GPU tools, and one whose channels fail after the
  first command.
\<close>

definition arm_host :: "unit host" where
  "arm_host h c =
    (if c = ''uname -m'' then Some (Closed [''aarch64'' @ newline] [] 0, 100, h)
     else Some (Closed [] [] 127, 100, h))"

definition arm_host_dropping :: "unit host" where
  "arm_host_dropping h c =
    (if c = ''uname -m'' then Some (Closed [''aarch64'' @ newline] [] 0, 100, h)
     else Some (ChannelError ''(SSH) Channel open failure: open failed'', 100, h))"

text \<open>
  An x86 host that shows an NVIDIA GPU without the CUDA compiler, ROCm, and a Strix Halo
  processor.
\<close>

definition gpu_host :: "unit host" where
  "gpu_host h c =
    (if c = probe_architecture then Some (Closed [''x86_64'' @ newline] [] 0, 100, h)
     else if c = probe_nvidia then
       Some (Closed [''NVIDIA GeForce RTX 4090'' @ newline] [] 0, 100, h)
     else if c = probe_rocm then Some (Closed [''GPU[0] : Card series: Radeon''] [] 0, 100, h)
     else if c = probe_cpu then
       Some (Closed [''Model name: AMD Ryzen AI Max+ 395''] [] 0, 100, h)
     else Some (Closed [] [] 127, 100, h))"

text \<open>
  The x86 hosts that print \<open>replies\<close> for the commands listed there and know no other
  command: one with an NVIDIA GPU and the CUDA compiler, one with ROCm and a Strix Halo
  processor, one with ROCm alone, and one without accelerator.
\<close>

definition x86_host :: "(string \<times> string) list \<Rightarrow> unit host" where
  "x86_host replies h c =
    (if c = probe_architecture then Some (Closed [''x86_64'' @ newline] [] 0, 100, h)
     else case map_of replies c of
            Some out \<Rightarrow> Some (Closed [out] [] 0, 100, h)
          | None \<Rightarrow> Some (Closed [] [] 127, 100, h))"

definition cuda_host :: "unit host" where
  "cuda_host =
    x86_host [(probe_nvidia, ''NVIDIA GeForce RTX 4090'' @ newline),
              (probe_cuda, ''12.2,'' @ newline),
              (probe_cpu, ''Model name: Intel Xeon E5-2680'')]"

definition strix_host :: "unit host" where
  "strix_host =
    x86_host [(probe_rocm, ''GPU[0] : Card series: Radeon''),
              (probe_cpu, ''Model name: AMD Ryzen AI Max+ 395'')]"

definition rocm_host :: "unit host" where
  "rocm_host =
    x86_host [(probe_rocm, ''GPU[0] : Card series: Radeon''),
              (probe_cpu, ''Model name: AMD Ryzen 9 7950X'')]"

definition plain_host :: "unit host" where
  "plain_host = x86_host [(probe_cpu, ''Model name: Intel Xeon E5-2680'')]"

text \<open>A host on which no command ever finishes.\<close>

definition silent_host :: "unit host" where
  "silent_host h c = None"

definition refused :: connection_error where
  "refused =
    \<lparr>error_message = ''connect ECONNREFUSED 10.0.0.5:22'', error_level = None,
     error_code = Some ''ECONNREFUSED''\<rparr>"

section \<open>Properties of the registry\<close>

text \<open>
  Claim C7. \<^verbatim>\<open>isServiceModeSupported('claracore','docker','darwin')\<close> is \<^verbatim>\<open>false\<close> and
  \<^verbatim>\<open>isServiceModeSupported('claracore','docker','win32')\<close> is \<^verbatim>\<open>true\<close>, because the
  \<^verbatim>\<open>claracore\<close> entry declares docker mode and lists exactly \<^verbatim>\<open>win32\<close> and
  \<^verbatim>\<open>linux\<close> as its docker platforms.
\<close>

theorem claracore_docker_mode_platforms:
  "isServiceModeSupported ''claracore'' ''docker'' ''darwin'' = JBool False
   \<and> isServiceModeSupported ''claracore'' ''docker'' ''win32'' = JBool True
   \<and> (\<exists>service support.
         map_of SERVICE_DEFINITIONS ''claracore'' = Some service
         \<and> platformSupport service = Some support
         \<and> map_of support ''docker'' = Some [''win32'', ''linux''])"
  by (simp add: isServiceModeSupported_def SERVICE_DEFINITIONS_def)

text \<open>
  Claim C10. For a service name that is no key of the registry, and for a registered
  service that declares no \<^verbatim>\<open>deploymentModes\<close>, on every target platform
  \<^verbatim>\<open>getSupportedDeploymentModes\<close> returns \<^verbatim>\<open>['docker']\<close> and
  \<^verbatim>\<open>isServiceModeSupported(name, mode, platform)\<close> is \<^verbatim>\<open>true\<close> exactly when the mode is
  \<^verbatim>\<open>'docker'\<close> (and \<^verbatim>\<open>false\<close> otherwise).
\<close>

theorem registry_defaults_to_docker_mode:
  assumes "map_of SERVICE_DEFINITIONS name = None
           \<or> (\<exists>service. map_of SERVICE_DEFINITIONS name = Some service
                 \<and> deploymentModes service = None)"
  shows "getSupportedDeploymentModes name targetPlatform = [''docker'']
         \<and> isServiceModeSupported name mode targetPlatform = JBool (mode = ''docker'')"
  using assms
  by (auto simp: getSupportedDeploymentModes_def isServiceModeSupported_def)

theorem registry_defaults_to_docker_mode_witness:
  "getSupportedDeploymentModes ''ollama'' ''darwin'' = [''docker'']
   \<and> isServiceModeSupported ''ollama'' ''docker'' ''darwin'' = JBool True
   \<and> isServiceModeSupported ''ollama'' ''manual'' ''darwin'' = JBool False
   \<and> getSupportedDeploymentModes ''mcp'' ''linux'' = [''docker'']
   \<and> isServiceModeSupported ''mcp'' ''docker'' ''linux'' = JBool True
   \<and> isServiceModeSupported ''mcp'' ''remote'' ''linux'' = JBool False"
proof -
  have unknown: "map_of SERVICE_DEFINITIONS ''ollama'' = None"
    by (simp add: SERVICE_DEFINITIONS_def)
  have no_modes: "\<exists>service. map_of SERVICE_DEFINITIONS ''mcp'' = Some service
      \<and> deploymentModes service = None"
    by (simp add: SERVICE_DEFINITIONS_def)
  show ?thesis
    using registry_defaults_to_docker_mode [of "''ollama''" "''darwin''" "''docker''"]
      registry_defaults_to_docker_mode [of "''ollama''" "''darwin''" "''manual''"]
      registry_defaults_to_docker_mode [of "''mcp''" "''linux''" "''docker''"]
      registry_defaults_to_docker_mode [of "''mcp''" "''linux''" "''remote''"]
      unknown no_modes
    by simp
qed


text \<open>
  Claim C5 fails where a missing dependency is reached before a cycle. In the first
  service map \<^verbatim>\<open>a\<close> depends on the absent \<^verbatim>\<open>zzz\<close>, and \<^verbatim>\<open>b\<close> and \<^verbatim>\<open>c\<close> depend on
  each other: the traversal throws at \<^verbatim>\<open>zzz\<close>, its \<^verbatim>\<open>catch\<close> reports the exception, and
  the cycle is never reported. With \<^verbatim>\<open>a\<close> listed last, the same services give the
  circular-dependency error as well.
\<close>

theorem validate_misses_cycle_after_missing_dependency:
  "validateServiceConfiguration cycle_after_missing
     = [''Dependency validation failed: Cannot read properties of undefined (reading 'forEach')'',
        ''Service a depends on zzz which is not enabled'']
   \<and> map_of (dependency_table cycle_after_missing) ''b'' = Some [''c'']
   \<and> map_of (dependency_table cycle_after_missing) ''c'' = Some [''b'']
   \<and> validateServiceConfiguration cycle_before_missing
     = [''Circular dependency detected involving b'',
        ''Dependency validation failed: Cannot read properties of undefined (reading 'forEach')'',
        ''Service a depends on zzz which is not enabled'']"
  by (simp add: cycle_after_missing_def cycle_before_missing_def
      validateServiceConfiguration_def dependencies_of_def dependency_table_def
      dependency_prototype_def read_dependency_def service_depending_on_def
      get_property_def missing_dependency_errors_def object_prototype_keys_def)

text \<open>
  The traversal on a service map without the own key \<^verbatim>\<open>__proto__\<close> whose every declared
  dependency is one of its keys: it never throws, so every error returned is a
  circular-dependency error, and the error list is empty exactly when the dependency
  graph has no cycle.
\<close>

lemma starts_with_append: "starts_with (p @ s) p"
  by (induction p) auto

lemma closed_reach:
  assumes "closed_visited G st" and "(a, b) \<in> (edges G)\<^sup>*" and "a \<in> set (visited st)"
  shows "b \<in> set (visited st)"
  using assms(2,3,1)
  by (induction rule: rtrancl_induct) (auto simp: closed_visited_def)

lemma own_property:
  "read_dependency obj k = Dependencies ds \<longleftrightarrow> map_of (forEach_table obj) k = Some ds"
proof (cases "map_of (own_properties obj) k")
  case (Some entry)
  then show ?thesis
    by (simp add: read_dependency_def forEach_table_def map_add_def)
next
  case None
  then show ?thesis
    by (cases "prototype_array obj")
      (simp_all add: read_dependency_def forEach_table_def map_add_def
        del: show_nat.simps)
qed

lemma dfs_stepI:
  assumes "r = Normal st'"
    and "set (visited st) \<subseteq> set (visited st')"
    and "(set (visited st') - set (visited st)) \<inter> set temp = {}"
    and "\<exists>es. errors st' = errors st @ es \<and> (\<forall>e \<in> set es. circular_error e)"
    and "errors st' = [] \<Longrightarrow> targets \<subseteq> set (visited st')"
    and "errors st' = [] \<Longrightarrow> closed_visited G st \<Longrightarrow> closed_visited G st'"
    and "\<forall>x \<in> set temp. \<forall>d \<in> targets. (x, d) \<in> (edges G)\<^sup>+
      \<Longrightarrow> \<forall>n. (n, n) \<notin> (edges G)\<^sup>+ \<Longrightarrow> errors st' = errors st"
  shows "dfs_step G temp targets st r"
  unfolding dfs_step_def using assms by blast

lemma dfs_stepD:
  assumes "dfs_step G temp targets st r"
  shows "\<exists>st'. r = Normal st'
    \<and> set (visited st) \<subseteq> set (visited st')
    \<and> (set (visited st') - set (visited st)) \<inter> set temp = {}
    \<and> (\<exists>es. errors st' = errors st @ es \<and> (\<forall>e \<in> set es. circular_error e))
    \<and> (errors st' = [] \<longrightarrow> targets \<subseteq> set (visited st'))
    \<and> (errors st' = [] \<longrightarrow> closed_visited G st \<longrightarrow> closed_visited G st')
    \<and> ((\<forall>x \<in> set temp. \<forall>d \<in> targets. (x, d) \<in> (edges G)\<^sup>+)
          \<longrightarrow> (\<forall>n. (n, n) \<notin> (edges G)\<^sup>+) \<longrightarrow> errors st' = errors st)"
  using assms unfolding dfs_step_def by blast

lemma dfs_invariants:
  shows "resolved_table (forEach_table obj) \<Longrightarrow> node \<in> dom (map_of (forEach_table obj))
      \<Longrightarrow> dfs_step (forEach_table obj) temp {node} st (visit obj temp node st)"
    and "resolved_table (forEach_table obj) \<Longrightarrow> set ds \<subseteq> dom (map_of (forEach_table obj))
      \<Longrightarrow> dfs_step (forEach_table obj) temp (set ds) st (visit_forEach obj temp ds st)"
proof (induction obj temp node st and obj temp ds st rule: visit_visit_forEach.induct)
  case (1 deps temp node st)
  let ?G = "forEach_table deps"
  note res = "1.prems"(1)
  from "1.prems"(2) obtain ds where ds: "map_of ?G node = Some ds"
    by auto
  then have own: "read_dependency deps node = Dependencies ds"
    by (simp add: own_property)
  have sub: "set ds \<subseteq> dom (map_of ?G)"
  proof
    fix d assume "d \<in> set ds"
    with ds have "(node, d) \<in> edges ?G" by (auto simp: edges_def)
    with res show "d \<in> dom (map_of ?G)" unfolding resolved_table_def by blast
  qed
  show ?case
  proof (cases "node \<in> set temp")
    case True
    let ?st = "st\<lparr>errors := errors st @ [''Circular dependency detected involving '' @ node]\<rparr>"
    have result: "visit deps temp node st = Normal ?st"
      using True by (subst visit.simps) simp
    show ?thesis
    proof (rule dfs_stepI [OF result])
      show "\<exists>es. errors ?st = errors st @ es \<and> (\<forall>e \<in> set es. circular_error e)"
        by (simp add: circular_error_def starts_with_append)
      show "errors ?st = errors st"
        if "\<forall>x \<in> set temp. \<forall>d \<in> {node}. (x, d) \<in> (edges ?G)\<^sup>+"
          and "\<forall>n. (n, n) \<notin> (edges ?G)\<^sup>+"
        using that True by blast
    qed simp_all
  next
    case False
    show ?thesis
    proof (cases "node \<in> set (visited st)")
      case True
      have result: "visit deps temp node st = Normal st"
        using True False by (subst visit.simps) simp
      show ?thesis
        by (rule dfs_stepI [OF result]) (use True in simp_all)
    next
      case fresh: False
      from dfs_stepD [OF "1.IH" [OF False fresh own res sub]]
      obtain st' where run: "visit_forEach deps (node # temp) ds st = Normal st'"
        and mono: "set (visited st) \<subseteq> set (visited st')"
        and new: "(set (visited st') - set (visited st)) \<inter> set (node # temp) = {}"
        and errs: "\<exists>es. errors st' = errors st @ es \<and> (\<forall>e \<in> set es. circular_error e)"
        and seen: "errors st' = [] \<longrightarrow> set ds \<subseteq> set (visited st')"
        and kept: "errors st' = [] \<longrightarrow> closed_visited ?G st \<longrightarrow> closed_visited ?G st'"
        and path: "(\<forall>x \<in> set (node # temp). \<forall>d \<in> set ds. (x, d) \<in> (edges ?G)\<^sup>+)
            \<longrightarrow> (\<forall>n. (n, n) \<notin> (edges ?G)\<^sup>+) \<longrightarrow> errors st' = errors st"
        by blast
      let ?st = "st'\<lparr>visited := node # visited st'\<rparr>"
      have result: "visit deps temp node st = Normal ?st"
        using False fresh own run by (subst visit.simps) simp
      have notin: "node \<notin> set (visited st')"
        using new fresh by auto
      have edge: "(node, d) \<in> edges ?G" if "d \<in> set ds" for d
        using that ds by (auto simp: edges_def)
      show ?thesis
      proof (rule dfs_stepI [OF result])
        show "set (visited st) \<subseteq> set (visited ?st)"
          using mono by auto
        show "(set (visited ?st) - set (visited st)) \<inter> set temp = {}"
          using new False by auto
        show "\<exists>es. errors ?st = errors st @ es \<and> (\<forall>e \<in> set es. circular_error e)"
          using errs by simp
        show "{node} \<subseteq> set (visited ?st)"
          by simp
        show "closed_visited ?G ?st"
          if none: "errors ?st = []" and c: "closed_visited ?G st"
        proof -
          from none have none': "errors st' = []" by simp
          from seen none' have dsv: "set ds \<subseteq> set (visited st')" by blast
          from kept none' c have c': "closed_visited ?G st'" by blast
          have succ: "b \<in> set (visited st')" if "(node, b) \<in> edges ?G" for b
            using that ds dsv by (auto simp: edges_def)
          have loop: "(node, node) \<notin> (edges ?G)\<^sup>+"
          proof
            assume "(node, node) \<in> (edges ?G)\<^sup>+"
            then obtain b where "(node, b) \<in> edges ?G" and "(b, node) \<in> (edges ?G)\<^sup>*"
              by (auto dest: tranclD)
            with succ closed_reach [OF c'] have "node \<in> set (visited st')"
              by blast
            with notin show False ..
          qed
          show ?thesis
            unfolding closed_visited_def
          proof (intro ballI conjI allI impI)
            fix v b assume "v \<in> set (visited ?st)" and "(v, b) \<in> edges ?G"
            then show "b \<in> set (visited ?st)"
              using succ c' by (auto simp: closed_visited_def)
          next
            fix v assume "v \<in> set (visited ?st)"
            then show "(v, v) \<notin> (edges ?G)\<^sup>+"
              using loop c' by (auto simp: closed_visited_def)
          qed
        qed
        show "errors ?st = errors st"
          if p: "\<forall>x \<in> set temp. \<forall>d \<in> {node}. (x, d) \<in> (edges ?G)\<^sup>+"
            and a: "\<forall>n. (n, n) \<notin> (edges ?G)\<^sup>+"
        proof -
          have "\<forall>x \<in> set (node # temp). \<forall>d \<in> set ds. (x, d) \<in> (edges ?G)\<^sup>+"
          proof (intro ballI)
            fix x d assume "x \<in> set (node # temp)" and d: "d \<in> set ds"
            then consider "x = node" | "x \<in> set temp" by auto
            then show "(x, d) \<in> (edges ?G)\<^sup>+"
            proof cases
              case 1
              with edge [OF d] show ?thesis by blast
            next
              case 2
              with p have "(x, node) \<in> (edges ?G)\<^sup>+" by blast
              with edge [OF d] show ?thesis by (blast intro: trancl_into_trancl)
            qed
          qed
          with path a show ?thesis by simp
        qed
      qed
    qed
  qed
next
  case (2 deps temp st)
  let ?G = "forEach_table deps"
  have result: "visit_forEach deps temp [] st = Normal st" by simp
  show ?case
    by (rule dfs_stepI [OF result]) simp_all
next
  case (3 deps temp d ds st)
  let ?G = "forEach_table deps"
  note res = "3.prems"(1)
  from "3.prems"(2) have d: "d \<in> dom (map_of ?G)" and rest: "set ds \<subseteq> dom (map_of ?G)"
    by auto
  from dfs_stepD [OF "3.IH"(1) [OF res d]]
  obtain st1 where run1: "visit deps temp d st = Normal st1"
    and mono1: "set (visited st) \<subseteq> set (visited st1)"
    and new1: "(set (visited st1) - set (visited st)) \<inter> set temp = {}"
    and errs1: "\<exists>es. errors st1 = errors st @ es \<and> (\<forall>e \<in> set es. circular_error e)"
    and seen1: "errors st1 = [] \<longrightarrow> {d} \<subseteq> set (visited st1)"
    and kept1: "errors st1 = [] \<longrightarrow> closed_visited ?G st \<longrightarrow> closed_visited ?G st1"
    and path1: "(\<forall>x \<in> set temp. \<forall>d' \<in> {d}. (x, d') \<in> (edges ?G)\<^sup>+)
        \<longrightarrow> (\<forall>n. (n, n) \<notin> (edges ?G)\<^sup>+) \<longrightarrow> errors st1 = errors st"
    by (rule exE) (elim conjE, rule that)
  from dfs_stepD [OF "3.IH"(2) [OF run1 res rest]]
  obtain st2 where run2: "visit_forEach deps temp ds st1 = Normal st2"
    and mono2: "set (visited st1) \<subseteq> set (visited st2)"
    and new2: "(set (visited st2) - set (visited st1)) \<inter> set temp = {}"
    and errs2: "\<exists>es. errors st2 = errors st1 @ es \<and> (\<forall>e \<in> set es. circular_error e)"
    and seen2: "errors st2 = [] \<longrightarrow> set ds \<subseteq> set (visited st2)"
    and kept2: "errors st2 = [] \<longrightarrow> closed_visited ?G st1 \<longrightarrow> closed_visited ?G st2"
    and path2: "(\<forall>x \<in> set temp. \<forall>d' \<in> set ds. (x, d') \<in> (edges ?G)\<^sup>+)
        \<longrightarrow> (\<forall>n. (n, n) \<notin> (edges ?G)\<^sup>+) \<longrightarrow> errors st2 = errors st1"
    by (rule exE) (elim conjE, rule that)
  have result: "visit_forEach deps temp (d # ds) st = Normal st2"
    using run1 run2 by simp
  from errs1 errs2 obtain es1 es2 where e1: "errors st1 = errors st @ es1"
    and c1: "\<forall>e \<in> set es1. circular_error e"
    and e2: "errors st2 = errors st1 @ es2" and c2: "\<forall>e \<in> set es2. circular_error e"
    by blast
  show ?case
  proof (rule dfs_stepI [OF result])
    show "set (visited st) \<subseteq> set (visited st2)"
      using mono1 mono2 by blast
    show "(set (visited st2) - set (visited st)) \<inter> set temp = {}"
      using new1 new2 by blast
    show "\<exists>es. errors st2 = errors st @ es \<and> (\<forall>e \<in> set es. circular_error e)"
      using e1 e2 c1 c2 by (intro exI [of _ "es1 @ es2"]) auto
    show "set (d # ds) \<subseteq> set (visited st2)" if "errors st2 = []"
    proof -
      from that e2 have "errors st1 = []" by simp
      with seen1 seen2 that mono2 show ?thesis by auto
    qed
    show "closed_visited ?G st2" if "errors st2 = []" and c: "closed_visited ?G st"
    proof -
      from that e2 have "errors st1 = []" by simp
      with kept1 kept2 that show ?thesis by blast
    qed
    show "errors st2 = errors st"
      if p: "\<forall>x \<in> set temp. \<forall>d' \<in> set (d # ds). (x, d') \<in> (edges ?G)\<^sup>+"
        and a: "\<forall>n. (n, n) \<notin> (edges ?G)\<^sup>+"
    proof -
      from p have "\<forall>x \<in> set temp. \<forall>d' \<in> {d}. (x, d') \<in> (edges ?G)\<^sup>+"
        and "\<forall>x \<in> set temp. \<forall>d' \<in> set ds. (x, d') \<in> (edges ?G)\<^sup>+"
        by auto
      with path1 path2 a show ?thesis by simp
    qed
  qed
qed

lemma dependency_table_plain:
  assumes "''__proto__'' \<notin> fst ` set services"
  shows "dependencies_of services
      = \<lparr>own_properties = dependency_table services, prototype_array = None\<rparr>"
    and "forEach_table (dependencies_of services) = dependency_table services"
    and "map fst (dependency_table services) = map fst services"
proof -
  from assms have none: "map_of services ''__proto__'' = None"
    by (simp add: map_of_eq_None_iff)
  then show "dependencies_of services
      = \<lparr>own_properties = dependency_table services, prototype_array = None\<rparr>"
    by (simp add: dependencies_of_def dependency_prototype_def)
  then show "forEach_table (dependencies_of services) = dependency_table services"
    by (simp add: forEach_table_def)
  from assms have "filter (\<lambda>(name, service). name \<noteq> ''__proto__'') services = services"
    by (intro filter_True) force
  then show "map fst (dependency_table services) = map fst services"
    by (simp add: dependency_table_def case_prod_unfold comp_def)
qed

lemma dependency_table_resolved:
  assumes "dependencies_enabled services" and "''__proto__'' \<notin> fst ` set services"
  shows "resolved_table (dependency_table services)"
  unfolding resolved_table_def
proof (intro allI impI)
  have keys: "dom (map_of (dependency_table services)) = fst ` set services"
    using dependency_table_plain(3) [OF assms(2)]
    by (metis dom_map_of_conv_image_fst set_map)
  fix a b assume "(a, b) \<in> edges (dependency_table services)"
  then obtain ds where "map_of (dependency_table services) a = Some ds" and b: "b \<in> set ds"
    by (auto simp: edges_def)
  then have "(a, ds) \<in> set (dependency_table services)"
    by (auto dest: map_of_SomeD)
  then obtain service where entry: "(a, service) \<in> set services"
    and ds: "ds = (case dependencies service of None \<Rightarrow> [] | Some ds \<Rightarrow> ds)"
    by (auto simp: dependency_table_def)
  from b ds obtain ds' where some: "dependencies service = Some ds'" and "b \<in> set ds'"
    by (cases "dependencies service") auto
  with assms(1) entry have "b \<in> fst ` set services"
    unfolding dependencies_enabled_def list_all_iff by fastforce
  then show "b \<in> dom (map_of (dependency_table services))"
    by (simp only: keys)
qed

lemma no_missing_dependency_errors:
  assumes "dependencies_enabled services"
  shows "missing_dependency_errors services = []"
proof -
  have own: "get_property services dep \<noteq> Absent" if "dep \<in> fst ` set services" for dep
  proof -
    from that have "dep \<in> dom (map_of services)"
      by (simp add: dom_map_of_conv_image_fst)
    then show ?thesis
      by (auto simp: get_property_def)
  qed
  have "filter (\<lambda>dep. get_property services dep = Absent) ds = []"
    if "(name, service) \<in> set services" and "dependencies service = Some ds"
    for name service ds
  proof -
    from assms that have "\<forall>dep \<in> set ds. dep \<in> fst ` set services"
      unfolding dependencies_enabled_def list_all_iff by fastforce
    with own show ?thesis
      by (auto simp: filter_empty_conv)
  qed
  then show ?thesis
    unfolding missing_dependency_errors_def
    by (auto split: option.splits)
qed

lemma validate_enabled_dependencies:
  assumes enabled: "dependencies_enabled services"
    and plain: "''__proto__'' \<notin> fst ` set services"
  shows "\<forall>e \<in> set (validateServiceConfiguration services). circular_error e"
    and "validateServiceConfiguration services = []
      \<longleftrightarrow> (\<forall>n. (n, n) \<notin> (edges (dependency_table services))\<^sup>+)"
proof -
  let ?obj = "dependencies_of services"
  let ?G = "dependency_table services"
  let ?init = "\<lparr>visited = [], errors = []\<rparr>"
  note table = dependency_table_plain(2) [OF plain]
  have own: "own_properties ?obj = ?G"
    by (simp add: dependencies_of_def)
  have keys: "set (map fst ?G) \<subseteq> dom (map_of (forEach_table ?obj))"
    unfolding table by (simp add: dom_map_of_conv_image_fst)
  have res: "resolved_table (forEach_table ?obj)"
    unfolding table by (rule dependency_table_resolved [OF enabled plain])
  from dfs_stepD [OF dfs_invariants(2) [OF res keys, of "[]" ?init], unfolded table]
  obtain st' where run: "visit_forEach ?obj [] (map fst ?G) ?init = Normal st'"
    and mono: "set (visited ?init) \<subseteq> set (visited st')"
    and new: "(set (visited st') - set (visited ?init)) \<inter> set [] = {}"
    and errs: "\<exists>es. errors st' = errors ?init @ es \<and> (\<forall>e \<in> set es. circular_error e)"
    and seen: "errors st' = [] \<longrightarrow> set (map fst ?G) \<subseteq> set (visited st')"
    and kept: "errors st' = [] \<longrightarrow> closed_visited ?G ?init \<longrightarrow> closed_visited ?G st'"
    and path: "(\<forall>x \<in> set []. \<forall>d \<in> set (map fst ?G). (x, d) \<in> (edges ?G)\<^sup>+)
        \<longrightarrow> (\<forall>n. (n, n) \<notin> (edges ?G)\<^sup>+) \<longrightarrow> errors st' = errors ?init"
    by (rule exE) (elim conjE, rule that)
  have result: "validateServiceConfiguration services = errors st'"
    using run no_missing_dependency_errors [OF enabled]
    by (simp add: validateServiceConfiguration_def own)
  from errs show "\<forall>e \<in> set (validateServiceConfiguration services). circular_error e"
    by (simp add: result)
  have init: "closed_visited ?G ?init"
    by (simp add: closed_visited_def)
  show "validateServiceConfiguration services = [] \<longleftrightarrow> (\<forall>n. (n, n) \<notin> (edges ?G)\<^sup>+)"
  proof
    assume "validateServiceConfiguration services = []"
    then have none: "errors st' = []" by (simp add: result)
    with seen have all: "set (map fst ?G) \<subseteq> set (visited st')" by blast
    from none kept init have closed: "closed_visited ?G st'" by blast
    show "\<forall>n. (n, n) \<notin> (edges ?G)\<^sup>+"
    proof (intro allI notI)
      fix n assume loop: "(n, n) \<in> (edges ?G)\<^sup>+"
      then obtain b where "(n, b) \<in> edges ?G"
        by (auto dest: tranclD)
      then have "n \<in> dom (map_of ?G)"
        by (auto simp: edges_def)
      then have "n \<in> set (map fst ?G)"
        by (simp add: dom_map_of_conv_image_fst)
      with all have "n \<in> set (visited st')" by blast
      with closed loop show False
        by (auto simp: closed_visited_def)
    qed
  next
    assume "\<forall>n. (n, n) \<notin> (edges ?G)\<^sup>+"
    with path have "errors st' = []" by simp
    then show "validateServiceConfiguration services = []"
      by (simp add: result)
  qed
qed

text \<open>
  With the own key \<^verbatim>\<open>__proto__\<close> the table of dependencies has no own property, so no
  node is visited and the dependency of \<^verbatim>\<open>__proto__\<close> on itself is not reported.
\<close>

lemma validate_own_proto_key:
  "validateServiceConfiguration own_proto_key = []"
  by (simp add: own_proto_key_def validateServiceConfiguration_def dependencies_of_def
      dependency_table_def dependency_prototype_def service_depending_on_def
      get_property_def missing_dependency_errors_def)

section \<open>Properties of the local container manager\<close>

























text \<open>
  Claim C9, as amended. \<^verbatim>\<open>getStatus()\<close> never throws. When the listing of the containers
  fails, or the container is not listed, it returns \<^verbatim>\<open>exists: false, running: false\<close>
  with the manager's \<^verbatim>\<open>gpuType\<close> and image and without an \<^verbatim>\<open>error\<close> field; when the
  container is listed and \<^verbatim>\<open>inspect\<close> fails, it returns
  \<^verbatim>\<open>exists: false, running: false\<close> with the \<^verbatim>\<open>error\<close> field; otherwise it returns
  \<^verbatim>\<open>exists: true\<close> with the running flag, the status string, the start timestamp, the
  image and the port mappings that \<^verbatim>\<open>inspect\<close> reports.
\<close>

theorem getStatus_never_throws:
  "\<exists>st s'. getStatus M s = (Inr st, s')
     \<and> st =
        (case listContainers M (world s) of
           (Inl e, w) \<Rightarrow> status_absent (self s)
         | (Inr containers, w) \<Rightarrow>
             if \<exists>c \<in> set containers. (''/'' @ containerName) \<in> set (Names c) then
               (case inspect M containerName w of
                  (Inl e, w') \<Rightarrow> status_failed e
                | (Inr info, w') \<Rightarrow> status_present info (self s))
             else status_absent (self s))"
  by (auto simp: getStatus_def containerExists_def try_catch_def and_then_def
      machine_call_def return_value_def status_absent_def status_failed_def
      status_present_def split: prod.splits sum.splits)

text \<open>
  The claim as stated fails where the listing of the containers is rejected: the object
  returned carries no \<^verbatim>\<open>error\<close> field.
\<close>

theorem getStatus_list_failure_without_error_field:
  "fst (listContainers unreachable_machine ()) = Inl ''connect ENOENT /var/run/docker.sock''
   \<and> fst (getStatus unreachable_machine (initial_state ()))
       = Inr \<lparr>exists = False, running = False, status = None, started = None,
              status_gpuType = None, image = None, ports = None, error = None\<rparr>"
  by (simp add: getStatus_def containerExists_def try_catch_def and_then_def
      machine_call_def return_value_def unreachable_machine_def initial_state_def
      new_docker_service_def)

section \<open>Properties of the remote deployment service\<close>

lemma await_Returns: "m s = Returns a s1 \<Longrightarrow> await m f s = f a s1"
  by (simp add: await_def)

lemma sudo_probe:
  "sudo_command pw probe_architecture = probe_architecture"
  "sudo_command pw probe_docker = probe_docker"
  "sudo_command pw probe_nvidia = probe_nvidia"
  "sudo_command pw probe_cuda = probe_cuda"
  "sudo_command pw probe_rocm = probe_rocm"
  "sudo_command pw probe_rocm_version = probe_rocm_version"
  "sudo_command pw probe_cpu = probe_cpu"
  by (simp_all add: sudo_command_def split: option.splits)

lemma answers_execCommand:
  assumes "answers host"
  shows "\<exists>out s'. execCommand host pw c s = Returns out s'
      \<and> issued s' = issued s @ [sudo_command pw c]"
proof -
  from assms obtain out err code t h'
    where "host (remote s) (sudo_command pw c) = Some (Closed out err code, t, h')"
    unfolding answers_def by blast
  then show ?thesis
    by (simp add: execCommand_def Let_def)
qed

lemma answers_probe:
  assumes "answers host"
  shows
    "\<exists>out s'. execCommand host pw probe_architecture s = Returns out s'
        \<and> issued s' = issued s @ [probe_architecture]"
    "\<exists>out s'. execCommand host pw probe_docker s = Returns out s'
        \<and> issued s' = issued s @ [probe_docker]"
    "\<exists>out s'. execCommand host pw probe_nvidia s = Returns out s'
        \<and> issued s' = issued s @ [probe_nvidia]"
    "\<exists>out s'. execCommand host pw probe_cuda s = Returns out s'
        \<and> issued s' = issued s @ [probe_cuda]"
    "\<exists>out s'. execCommand host pw probe_rocm s = Returns out s'
        \<and> issued s' = issued s @ [probe_rocm]"
    "\<exists>out s'. execCommand host pw probe_rocm_version s = Returns out s'
        \<and> issued s' = issued s @ [probe_rocm_version]"
    "\<exists>out s'. execCommand host pw probe_cpu s = Returns out s'
        \<and> issued s' = issued s @ [probe_cpu]"
  using answers_execCommand [OF assms, of pw probe_architecture s, unfolded sudo_probe]
    answers_execCommand [OF assms, of pw probe_docker s, unfolded sudo_probe]
    answers_execCommand [OF assms, of pw probe_nvidia s, unfolded sudo_probe]
    answers_execCommand [OF assms, of pw probe_cuda s, unfolded sudo_probe]
    answers_execCommand [OF assms, of pw probe_rocm s, unfolded sudo_probe]
    answers_execCommand [OF assms, of pw probe_rocm_version s, unfolded sudo_probe]
    answers_execCommand [OF assms, of pw probe_cpu s, unfolded sudo_probe]
  by blast+

lemma check_nvidia_answers:
  assumes "answers host" and "\<not> nvidia d"
  shows "\<exists>d' s'. check_nvidia host pw d s = Returns d' s'
      \<and> architecture d' = architecture d \<and> rocm d' = rocm d
      \<and> issued s' = issued s @ [probe_nvidia] @ (if nvidia d' then [probe_cuda] else [])"
proof -
  from answers_probe(3) [OF assms(1)] obtain nvidiaInfo s1
    where e1: "execCommand host pw probe_nvidia s = Returns nvidiaInfo s1"
      and i1: "issued s1 = issued s @ [probe_nvidia]"
    by blast
  from answers_probe(4) [OF assms(1)] obtain cudaInfo s2
    where e2: "execCommand host pw probe_cuda s1 = Returns cudaInfo s2"
      and i2: "issued s2 = issued s1 @ [probe_cuda]"
    by blast
  show ?thesis
    unfolding check_nvidia_def
    using e1 i1 e2 i2 assms(2) by (simp add: await_def resolved_def)
qed

lemma check_rocm_answers:
  assumes "answers host" and "\<not> rocm d"
  shows "\<exists>d' s'. check_rocm host pw d s = Returns d' s'
      \<and> architecture d' = architecture d \<and> nvidia d' = nvidia d
      \<and> issued s' = issued s @ [probe_rocm] @ (if rocm d' then [probe_rocm_version] else [])"
proof -
  from answers_probe(5) [OF assms(1)] obtain rocmInfo s1
    where e1: "execCommand host pw probe_rocm s = Returns rocmInfo s1"
      and i1: "issued s1 = issued s @ [probe_rocm]"
    by blast
  from answers_probe(6) [OF assms(1)] obtain versionInfo s2
    where e2: "execCommand host pw probe_rocm_version s1 = Returns versionInfo s2"
      and i2: "issued s2 = issued s1 @ [probe_rocm_version]"
    by blast
  show ?thesis
    unfolding check_rocm_def
    using e1 i1 e2 i2 assms(2) by (simp add: await_def resolved_def)
qed

lemma with_cpu_keeps:
  "architecture (with_cpu c d) = architecture d"
  "nvidia (with_cpu c d) = nvidia d"
  "rocm (with_cpu c d) = rocm d"
  by (simp_all add: with_cpu_def)

lemma first_details:
  "architecture (with_docker b (with_architecture a initial_details))
     = (if a \<noteq> [] then trim a else ''unknown'')"
  "\<not> nvidia (with_docker b (with_architecture a initial_details))"
  "\<not> rocm (with_docker b (with_architecture a initial_details))"
  by (simp_all add: with_docker_def with_architecture_def initial_details_def)

lemma probe_hardware_answers:
  assumes "answers host"
    and arch: "execCommand host pw probe_architecture s = Returns archInfo s1"
  shows "\<exists>d s'. probe_hardware host pw s = Returns d s'
      \<and> architecture d = (if archInfo \<noteq> [] then trim archInfo else ''unknown'')
      \<and> issued s' = issued s @ [probe_architecture, probe_docker, probe_nvidia]
          @ (if nvidia d then [probe_cuda] else []) @ [probe_rocm]
          @ (if rocm d then [probe_rocm_version] else []) @ [probe_cpu]"
proof -
  from answers_probe(1) [OF assms(1), of pw s] arch
  have i1: "issued s1 = issued s @ [probe_architecture]"
    by auto
  from answers_probe(2) [OF assms(1)] obtain dockerInfo s2
    where e2: "execCommand host pw probe_docker s1 = Returns dockerInfo s2"
      and i2: "issued s2 = issued s1 @ [probe_docker]"
    by blast
  define d2 where "d2 = with_docker dockerInfo (with_architecture archInfo initial_details)"
  have a2: "architecture d2 = (if archInfo \<noteq> [] then trim archInfo else ''unknown'')"
    and n2: "\<not> nvidia d2" and r2: "\<not> rocm d2"
    unfolding d2_def by (rule first_details)+
  from check_nvidia_answers [OF assms(1) n2] obtain d3 s3
    where e3: "check_nvidia host pw d2 s2 = Returns d3 s3"
      and a3: "architecture d3 = architecture d2" and r3: "rocm d3 = rocm d2"
      and i3: "issued s3 = issued s2 @ [probe_nvidia] @ (if nvidia d3 then [probe_cuda] else [])"
    by blast
  from r2 r3 have "\<not> rocm d3" by simp
  from check_rocm_answers [OF assms(1) this] obtain d4 s4
    where e4: "check_rocm host pw d3 s3 = Returns d4 s4"
      and a4: "architecture d4 = architecture d3" and n4: "nvidia d4 = nvidia d3"
      and i4: "issued s4 = issued s3 @ [probe_rocm]
          @ (if rocm d4 then [probe_rocm_version] else [])"
    by blast
  from answers_probe(7) [OF assms(1)] obtain cpuInfo s5
    where e5: "execCommand host pw probe_cpu s4 = Returns cpuInfo s5"
      and i5: "issued s5 = issued s4 @ [probe_cpu]"
    by blast
  have run: "probe_hardware host pw s = Returns (with_cpu cpuInfo d4) s5"
    unfolding probe_hardware_def
    using arch e2 e3 e4 e5 by (simp add: await_def resolved_def d2_def)
  show ?thesis
    using run a2 a3 a4 n4 i1 i2 i3 i4 i5 by (simp add: with_cpu_keeps)
qed

lemma details_recommendation: "details (recommendation d) = d"
  by (simp add: recommendation_def)

lemma detectHardware_Returns:
  assumes "detectHardware host pw s = Returns r s'"
  shows "\<exists>d. probe_hardware host pw s = Returns d s' \<and> r = recommendation d"
  using assms
  by (auto simp: detectHardware_def catching_def await_def resolved_def rejected_def
      split: step.splits)

lemma detectHardware_probe:
  assumes "probe_hardware host pw s = Returns d s'"
  shows "detectHardware host pw s = Returns (recommendation d) s'"
  using assms
  by (simp add: detectHardware_def catching_def await_def resolved_def)

text \<open>
  How the flags of \<^verbatim>\<open>details\<close> follow from the answers to the probes.
\<close>

lemma check_nvidia_flag:
  assumes "execCommand host pw probe_nvidia s = Returns nvidiaInfo s1"
    and "check_nvidia host pw d s = Returns d' s'"
  shows "nvidia d' = (nvidia d \<or> (nvidiaInfo \<noteq> []
      \<and> \<not> str_includes nvidiaInfo ''command not found'' \<and> trim nvidiaInfo \<noteq> []))"
  using assms
  by (auto simp: check_nvidia_def await_def resolved_def split: step.splits if_splits)

lemma check_rocm_flag:
  assumes "execCommand host pw probe_rocm s = Returns rocmInfo s1"
    and "check_rocm host pw d s = Returns d' s'"
  shows "rocm d' = (rocm d \<or> (rocmInfo \<noteq> []
      \<and> \<not> str_includes rocmInfo ''command not found'' \<and> trim rocmInfo \<noteq> []))"
  using assms
  by (auto simp: check_rocm_def await_def resolved_def split: step.splits if_splits)

lemma with_cpu_flag:
  "strix (with_cpu cpuInfo d) = (strix d \<or> str_includes cpuInfo ''Ryzen AI Max''
      \<or> str_includes cpuInfo ''Strix'' \<or> str_includes cpuInfo ''8040'')"
  by (cases cpuInfo) (auto simp: with_cpu_def)

text \<open>Asynchronous functions that settle, and that throw.\<close>

lemma settles_resolved: "settles (resolved a)"
  by (simp add: settles_def resolved_def)

lemma settles_if: "settles f \<Longrightarrow> settles g \<Longrightarrow> settles (if b then f else g)"
  by simp

lemma settles_await:
  assumes "settles m" and "\<And>a. settles (f a)"
  shows "settles (await m f)"
  unfolding settles_def
proof
  fix s
  from assms(1) consider (returns) a s' where "m s = Returns a s'"
    | (throws) e s' where "m s = Throws e s'"
    unfolding settles_def by blast
  then show "(\<exists>a s'. await m f s = Returns a s') \<or> (\<exists>e s'. await m f s = Throws e s')"
  proof cases
    case returns
    with assms(2) [of a] show ?thesis
      by (simp add: await_def settles_def)
  next
    case throws
    then show ?thesis
      by (simp add: await_def)
  qed
qed

lemma throws_await:
  assumes "throws m"
  shows "throws (await m f)"
  unfolding throws_def
proof
  fix s
  from assms obtain e s' where "m s = Throws e s'"
    unfolding throws_def by blast
  then show "\<exists>e s'. await m f s = Throws e s'"
    by (simp add: await_def)
qed

lemma throws_after:
  assumes "settles m" and "\<And>a. throws (f a)"
  shows "throws (await m f)"
  unfolding throws_def
proof
  fix s
  from assms(1) consider (returns) a s' where "m s = Returns a s'"
    | (throws) e s' where "m s = Throws e s'"
    unfolding settles_def by blast
  then show "\<exists>e s'. await m f s = Throws e s'"
  proof cases
    case returns
    with assms(2) [of a] show ?thesis
      by (simp add: await_def throws_def)
  next
    case throws
    then show ?thesis
      by (simp add: await_def)
  qed
qed

lemma settles_execCommand:
  assumes "responds host"
  shows "settles (execCommand host pw c)"
  unfolding settles_def
proof
  fix s :: "'a session"
  from assms obtain outcome t h'
    where "host (remote s) (sudo_command pw c) = Some (outcome, t, h')"
    unfolding responds_def by (metis not_None_eq prod_cases3)
  then show "(\<exists>a s'. execCommand host pw c s = Returns a s')
      \<or> (\<exists>e s'. execCommand host pw c s = Throws e s')"
    by (cases outcome) (simp_all add: execCommand_def Let_def)
qed

lemma throws_execCommand:
  assumes "channel_fails host c" and "sudo_command pw c = c"
  shows "throws (execCommand host pw c)"
  unfolding throws_def
proof
  fix s :: "'a session"
  from assms obtain e t h' where "host (remote s) (sudo_command pw c) = Some (ChannelError e, t, h')"
    unfolding channel_fails_def by metis
  then show "\<exists>e s'. execCommand host pw c s = Throws e s'"
    by (simp add: execCommand_def Let_def)
qed

lemma settles_check_nvidia:
  assumes "responds host"
  shows "settles (check_nvidia host pw d)"
  unfolding check_nvidia_def
  by (intro settles_await settles_if settles_resolved settles_execCommand assms)

lemma settles_check_rocm:
  assumes "responds host"
  shows "settles (check_rocm host pw d)"
  unfolding check_rocm_def
  by (intro settles_await settles_if settles_resolved settles_execCommand assms)

lemma throws_probe_hardware:
  assumes r: "responds host"
    and c: "c \<in> set [probe_architecture, probe_docker, probe_nvidia, probe_rocm, probe_cpu]"
    and fails: "channel_fails host c"
  shows "throws (probe_hardware host pw)"
proof -
  note exec = settles_execCommand [OF r]
  from c have "c = probe_architecture \<or> c = probe_docker \<or> c = probe_nvidia
      \<or> c = probe_rocm \<or> c = probe_cpu"
    by simp
  then show ?thesis
  proof (elim disjE)
    assume "c = probe_architecture"
    with fails have "throws (execCommand host pw probe_architecture)"
      by (simp add: throws_execCommand sudo_probe)
    then show ?thesis
      unfolding probe_hardware_def by (rule throws_await)
  next
    assume "c = probe_docker"
    with fails have "throws (execCommand host pw probe_docker)"
      by (simp add: throws_execCommand sudo_probe)
    then show ?thesis
      unfolding probe_hardware_def
      by (intro throws_after [OF exec] throws_await)
  next
    assume "c = probe_nvidia"
    with fails have "throws (execCommand host pw probe_nvidia)"
      by (simp add: throws_execCommand sudo_probe)
    then have "throws (check_nvidia host pw d)" for d
      unfolding check_nvidia_def by (rule throws_await)
    then show ?thesis
      unfolding probe_hardware_def
      by (intro throws_after [OF exec] throws_await)
  next
    assume "c = probe_rocm"
    with fails have "throws (execCommand host pw probe_rocm)"
      by (simp add: throws_execCommand sudo_probe)
    then have "throws (check_rocm host pw d)" for d
      unfolding check_rocm_def by (rule throws_await)
    then show ?thesis
      unfolding probe_hardware_def
      by (intro throws_after [OF exec] throws_after [OF settles_check_nvidia [OF r]]
          throws_await)
  next
    assume "c = probe_cpu"
    with fails have "throws (execCommand host pw probe_cpu)"
      by (simp add: throws_execCommand sudo_probe)
    then show ?thesis
      unfolding probe_hardware_def
      by (intro throws_after [OF exec] throws_after [OF settles_check_nvidia [OF r]]
          throws_after [OF settles_check_rocm [OF r]] throws_await)
  qed
qed

lemma throws_detectHardware:
  assumes "throws (probe_hardware host pw)"
  shows "\<exists>e s'. detectHardware host pw s = Throws e s'"
proof -
  from assms obtain e s' where "probe_hardware host pw s = Throws e s'"
    unfolding throws_def by blast
  then show ?thesis
    by (simp add: detectHardware_def catching_def await_def rejected_def)
qed

text \<open>
  Claim C3, as amended. On a host that answers every command, when the architecture
  reported by \<^verbatim>\<open>uname -m\<close> contains \<^verbatim>\<open>arm\<close> or \<^verbatim>\<open>aarch\<close>, \<^verbatim>\<open>detectHardware\<close>
  returns \<^verbatim>\<open>detected: 'unsupported'\<close> with confidence \<^verbatim>\<open>'high'\<close>, the reason string,
  \<^verbatim>\<open>unsupportedReason: 'arm'\<close> and, as \<^verbatim>\<open>details\<close>, the record that the probes have
  filled in; it does so after the architecture query and the Docker, NVIDIA, ROCm and
  CPU-model probes (and the CUDA and ROCm version queries where the GPU probe found a
  device), which are exactly the commands it has sent. On a host where every command
  ends and the channel of the architecture query or of the Docker, NVIDIA, ROCm or
  CPU-model probe fails, \<^verbatim>\<open>detectHardware\<close> throws and returns nothing, whatever the
  architecture.
\<close>

theorem detectHardware_arm_unsupported:
  "(answers host
      \<and> execCommand host pw probe_architecture s = Returns archInfo s1
      \<and> (str_includes (trim archInfo) ''arm'' \<or> str_includes (trim archInfo) ''aarch'')
    \<longrightarrow> (\<exists>d s'. probe_hardware host pw s = Returns d s'
          \<and> architecture d = trim archInfo
          \<and> detectHardware host pw s
              = Returns
                  \<lparr>detected = ''unsupported'', confidence = ''high'', details = d,
                   hardware_error = Some (''ARM architecture ('' @ trim archInfo
                     @ '') is not supported yet. ClaraCore Docker images are currently only available for x86_64/amd64 architecture.''),
                   unsupportedReason = Some ''arm''\<rparr> s'
          \<and> issued s' = issued s @ [probe_architecture, probe_docker, probe_nvidia]
              @ (if nvidia d then [probe_cuda] else []) @ [probe_rocm]
              @ (if rocm d then [probe_rocm_version] else []) @ [probe_cpu]))
   \<and> (responds host
      \<and> c \<in> set [probe_architecture, probe_docker, probe_nvidia, probe_rocm, probe_cpu]
      \<and> channel_fails host c
    \<longrightarrow> (\<exists>e s'. detectHardware host pw s = Throws e s'))"
proof (intro conjI impI)
  assume "answers host
      \<and> execCommand host pw probe_architecture s = Returns archInfo s1
      \<and> (str_includes (trim archInfo) ''arm'' \<or> str_includes (trim archInfo) ''aarch'')"
  then have host: "answers host"
    and arch: "execCommand host pw probe_architecture s = Returns archInfo s1"
    and arm: "str_includes (trim archInfo) ''arm'' \<or> str_includes (trim archInfo) ''aarch''"
    by simp_all
  from arm have nonempty: "archInfo \<noteq> []"
    by (auto simp: trim_def)
  from probe_hardware_answers [OF host arch] nonempty obtain d s'
    where run: "probe_hardware host pw s = Returns d s'"
      and a: "architecture d = trim archInfo"
      and i: "issued s' = issued s @ [probe_architecture, probe_docker, probe_nvidia]
          @ (if nvidia d then [probe_cuda] else []) @ [probe_rocm]
          @ (if rocm d then [probe_rocm_version] else []) @ [probe_cpu]"
    by auto
  have "recommendation d =
      \<lparr>detected = ''unsupported'', confidence = ''high'', details = d,
       hardware_error = Some (''ARM architecture ('' @ trim archInfo
         @ '') is not supported yet. ClaraCore Docker images are currently only available for x86_64/amd64 architecture.''),
       unsupportedReason = Some ''arm''\<rparr>"
    using arm a by (auto simp: recommendation_def)
  with detectHardware_probe [OF run] run a i
  show "\<exists>d s'. probe_hardware host pw s = Returns d s'
          \<and> architecture d = trim archInfo
          \<and> detectHardware host pw s
              = Returns
                  \<lparr>detected = ''unsupported'', confidence = ''high'', details = d,
                   hardware_error = Some (''ARM architecture ('' @ trim archInfo
                     @ '') is not supported yet. ClaraCore Docker images are currently only available for x86_64/amd64 architecture.''),
                   unsupportedReason = Some ''arm''\<rparr> s'
          \<and> issued s' = issued s @ [probe_architecture, probe_docker, probe_nvidia]
              @ (if nvidia d then [probe_cuda] else []) @ [probe_rocm]
              @ (if rocm d then [probe_rocm_version] else []) @ [probe_cpu]"
    by (intro exI [of _ d] exI [of _ s']) simp
next
  assume "responds host
      \<and> c \<in> set [probe_architecture, probe_docker, probe_nvidia, probe_rocm, probe_cpu]
      \<and> channel_fails host c"
  then have "throws (probe_hardware host pw)"
    by (intro throws_probe_hardware [of host c]) simp_all
  then show "\<exists>e s'. detectHardware host pw s = Throws e s'"
    by (rule throws_detectHardware)
qed

text \<open>
  Claim C8. When the probes of \<^verbatim>\<open>detectHardware\<close> have filled in the record \<open>d\<close> and its
  architecture is not ARM, \<^verbatim>\<open>detectHardware\<close> returns \<open>d\<close> as \<^verbatim>\<open>details\<close> with the
  recommendation \<^verbatim>\<open>'cuda'\<close> when the NVIDIA flag of \<open>d\<close> is set, else \<^verbatim>\<open>'strix'\<close> when
  its Strix flag is set, else \<^verbatim>\<open>'rocm'\<close> when its ROCm flag is set, else \<^verbatim>\<open>'cpu'\<close>; the
  confidence is \<^verbatim>\<open>'medium'\<close> exactly when NVIDIA wins and no CUDA version was retrieved
  (\<^verbatim>\<open>details.cudaVersion\<close> is absent or the empty string), and \<^verbatim>\<open>'high'\<close> otherwise.
\<close>

theorem recommendation_precedence:
  assumes "probe_hardware host pw s = Returns d s'"
    and "\<not> str_includes (architecture d) ''arm''"
    and "\<not> str_includes (architecture d) ''aarch''"
  shows "detectHardware host pw s
      = Returns
          \<lparr>detected =
             (if nvidia d then ''cuda'' else if strix d then ''strix''
              else if rocm d then ''rocm'' else ''cpu''),
           confidence =
             (if nvidia d \<and> (cudaVersion d = None \<or> cudaVersion d = Some [])
              then ''medium'' else ''high''),
           details = d, hardware_error = None, unsupportedReason = None\<rparr> s'"
proof -
  have "recommendation d =
      \<lparr>detected =
         (if nvidia d then ''cuda'' else if strix d then ''strix''
          else if rocm d then ''rocm'' else ''cpu''),
       confidence =
         (if nvidia d \<and> (cudaVersion d = None \<or> cudaVersion d = Some [])
          then ''medium'' else ''high''),
       details = d, hardware_error = None, unsupportedReason = None\<rparr>"
    using assms(2,3) by (auto simp: recommendation_def split: option.splits)
  with detectHardware_probe [OF assms(1)] show ?thesis
    by simp
qed

lemmas run_defs = deploy_steps_def checkDocker_def execCommand_def
  execCommandWithOutput_def await_def catching_def resolved_def rejected_def sleep_def
  sudo_command_def install_prerequisites_def example_config_def session_start_def
  setupCuda_def buildDockerRunCommand_def trim_def is_space_def Let_def

lemmas detect_defs = detectHardware_def probe_hardware_def check_nvidia_def check_rocm_def
  with_architecture_def with_docker_def with_cpu_def initial_details_def recommendation_def

text \<open>
  Claim C1 fails on the timeout path. On the host whose \<^verbatim>\<open>docker pull\<close> never finishes,
  the timer of \<^verbatim>\<open>deploy\<close> rejects the promise, and \<^verbatim>\<open>sudoPassword\<close> still holds the
  password of the configuration: the callback of the timer does not clear it.
\<close>

theorem deploy_timeout_keeps_sudoPassword:
  "deploy stalled_pull_host (Ready 800) () (example_config ''cpu'') new_remote_service
   = (Rejected ''Deployment timeout after 5 minutes'', \<lparr>sudoPassword = Some ''hunter2''\<rparr>)"
  by (simp add: deploy_def run_defs stalled_pull_host_def new_remote_service_def)

text \<open>
  Claim C2 fails after the fallback. On the host without NVIDIA drivers, \<^verbatim>\<open>deploy\<close> with
  \<^verbatim>\<open>hardwareType: 'cuda'\<close> falls back to the CPU variant and starts the container
  \<^verbatim>\<open>claracore-cpu\<close>, which is running when the handler ends; the verification then asks
  for the container \<^verbatim>\<open>claracore-cuda\<close>, finds none, and \<^verbatim>\<open>deploy\<close> resolves with
  \<^verbatim>\<open>success: false\<close>. The same host deploys the CPU variant when it is asked for.
\<close>

theorem deploy_cuda_fallback_fails_verification:
  "deploy cpu_only_host (Ready 800) [] (example_config ''cuda'') new_remote_service
    = (Resolved (Failure (''Container failed to start.'' @ newline @ newline
          @ ''Status: Container not found'' @ newline @ newline @ ''Logs:'' @ newline
          @ ''No logs available'')),
       \<lparr>sudoPassword = None\<rparr>)
   \<and> remote (final_session (deploy_steps cpu_only_host (example_config ''cuda'')
        (session_start [] 800))) = [''claracore-cpu'']
   \<and> fst (deploy cpu_only_host (Ready 800) [] (example_config ''cpu'') new_remote_service)
      = Resolved (Success
          \<lparr>url = ''http://10.0.0.5:5890'', deployed_containerName = ''claracore-cpu'',
           deployed_hardwareType = ''cpu'', gpuAvailable = False, fallbackToCpu = False,
           deployment_message = ''Deployed in CPU mode''\<rparr>)"
proof (intro conjI)
  show "deploy cpu_only_host (Ready 800) [] (example_config ''cuda'') new_remote_service
    = (Resolved (Failure (''Container failed to start.'' @ newline @ newline
          @ ''Status: Container not found'' @ newline @ newline @ ''Logs:'' @ newline
          @ ''No logs available'')),
       \<lparr>sudoPassword = None\<rparr>)"
    by (simp add: deploy_def run_defs cpu_only_host_def new_remote_service_def
        deploy_error_message_def)
  show "remote (final_session (deploy_steps cpu_only_host (example_config ''cuda'')
        (session_start [] 800))) = [''claracore-cpu'']"
    by (simp add: run_defs cpu_only_host_def)
  show "fst (deploy cpu_only_host (Ready 800) [] (example_config ''cpu'') new_remote_service)
      = Resolved (Success
          \<lparr>url = ''http://10.0.0.5:5890'', deployed_containerName = ''claracore-cpu'',
           deployed_hardwareType = ''cpu'', gpuAvailable = False, fallbackToCpu = False,
           deployment_message = ''Deployed in CPU mode''\<rparr>)"
    by (simp add: deploy_def run_defs cpu_only_host_def new_remote_service_def)
qed

text \<open>
  The claim as stated fails on the ARM hosts: on the first, \<^verbatim>\<open>detectHardware\<close> has sent
  four probes after the architecture query; on the second, whose channels fail after the
  first command, it throws and returns nothing.
\<close>

theorem detectHardware_arm_probes_everything:
  "issued (final_session (detectHardware arm_host None (session_start () 0)))
     = [probe_architecture, probe_docker, probe_nvidia, probe_rocm, probe_cpu]
   \<and> detectHardware arm_host_dropping None (session_start () 0)
     = Throws ''(SSH) Channel open failure: open failed''
        \<lparr>remote = (), clock = 200, issued = [probe_architecture, probe_docker]\<rparr>"
  by (simp add: detect_defs run_defs arm_host_def arm_host_dropping_def)

lemma arm_host_answers: "answers arm_host"
  by (simp add: answers_def arm_host_def)

lemma arm_host_architecture:
  "execCommand arm_host None probe_architecture (session_start () 0)
    = Returns (''aarch64'' @ newline) \<lparr>remote = (), clock = 100, issued = [probe_architecture]\<rparr>"
  by (simp add: run_defs arm_host_def)

lemma arm_host_dropping_responds: "responds arm_host_dropping"
  by (simp add: responds_def arm_host_dropping_def)

lemma arm_host_dropping_fails: "channel_fails arm_host_dropping probe_docker"
  by (simp add: channel_fails_def arm_host_dropping_def)

text \<open>
  The two ARM hosts satisfy the hypotheses: the one without Docker or GPU tools those of
  the first part, the one whose channels fail after the first command those of the
  second.
\<close>

theorem detectHardware_arm_unsupported_witness:
  "answers arm_host
   \<and> execCommand arm_host None probe_architecture (session_start () 0)
       = Returns (''aarch64'' @ newline)
           \<lparr>remote = (), clock = 100, issued = [probe_architecture]\<rparr>
   \<and> str_includes (trim (''aarch64'' @ newline)) ''aarch''
   \<and> probe_hardware arm_host None (session_start () 0)
       = Returns
           \<lparr>docker = False, nvidia = False, rocm = False, strix = False,
            architecture = ''aarch64'', dockerVersion = None, gpuInfo = None,
            cudaVersion = None, rocmVersion = None, cpuModel = None\<rparr>
           \<lparr>remote = (), clock = 500,
            issued = [probe_architecture, probe_docker, probe_nvidia, probe_rocm,
              probe_cpu]\<rparr>
   \<and> detectHardware arm_host None (session_start () 0)
       = Returns
           \<lparr>detected = ''unsupported'', confidence = ''high'',
            details =
              \<lparr>docker = False, nvidia = False, rocm = False, strix = False,
               architecture = ''aarch64'', dockerVersion = None, gpuInfo = None,
               cudaVersion = None, rocmVersion = None, cpuModel = None\<rparr>,
            hardware_error = Some ''ARM architecture (aarch64) is not supported yet. ClaraCore Docker images are currently only available for x86_64/amd64 architecture.'',
            unsupportedReason = Some ''arm''\<rparr>
           \<lparr>remote = (), clock = 500,
            issued = [probe_architecture, probe_docker, probe_nvidia, probe_rocm,
              probe_cpu]\<rparr>
   \<and> responds arm_host_dropping
   \<and> channel_fails arm_host_dropping probe_docker
   \<and> detectHardware arm_host_dropping None (session_start () 0)
       = Throws ''(SSH) Channel open failure: open failed''
           \<lparr>remote = (), clock = 200, issued = [probe_architecture, probe_docker]\<rparr>"
proof -
  have arm: "str_includes (trim (''aarch64'' @ newline)) ''arm''
      \<or> str_includes (trim (''aarch64'' @ newline)) ''aarch''"
    by (simp add: trim_def is_space_def)
  have listed: "probe_docker
      \<in> set [probe_architecture, probe_docker, probe_nvidia, probe_rocm, probe_cpu]"
    by simp
  note general = detectHardware_arm_unsupported
    [where host = arm_host and pw = None and s = "session_start () 0"
      and archInfo = "''aarch64'' @ newline"
      and ?s1.0 = "\<lparr>remote = (), clock = 100, issued = [probe_architecture]\<rparr>",
      THEN conjunct1, rule_format,
      OF conjI [OF arm_host_answers conjI [OF arm_host_architecture arm]]]
    detectHardware_arm_unsupported
    [where host = arm_host_dropping and c = probe_docker and pw = None
      and s = "session_start () 0",
      THEN conjunct2, rule_format,
      OF conjI [OF arm_host_dropping_responds conjI [OF listed arm_host_dropping_fails]]]
  have run: "probe_hardware arm_host None (session_start () 0)
       = Returns
           \<lparr>docker = False, nvidia = False, rocm = False, strix = False,
            architecture = ''aarch64'', dockerVersion = None, gpuInfo = None,
            cudaVersion = None, rocmVersion = None, cpuModel = None\<rparr>
           \<lparr>remote = (), clock = 500,
            issued = [probe_architecture, probe_docker, probe_nvidia, probe_rocm,
              probe_cpu]\<rparr>"
    by (simp add: detect_defs run_defs arm_host_def)
  have dropped: "detectHardware arm_host_dropping None (session_start () 0)
       = Throws ''(SSH) Channel open failure: open failed''
           \<lparr>remote = (), clock = 200, issued = [probe_architecture, probe_docker]\<rparr>"
    by (simp add: detect_defs run_defs arm_host_dropping_def)
  from general run dropped arm_host_answers arm_host_architecture
    arm_host_dropping_responds arm_host_dropping_fails
  show ?thesis
    by (simp add: trim_def is_space_def)
qed

lemma gpu_host_probe:
  "probe_hardware gpu_host None (session_start () 0)
    = Returns
        \<lparr>docker = False, nvidia = True, rocm = True, strix = True,
         architecture = ''x86_64'', dockerVersion = None,
         gpuInfo = Some ''NVIDIA GeForce RTX 4090'', cudaVersion = None,
         rocmVersion = None, cpuModel = Some ''AMD Ryzen AI Max+ 395''\<rparr>
        \<lparr>remote = (), clock = 700,
         issued = [probe_architecture, probe_docker, probe_nvidia, probe_cuda, probe_rocm,
           probe_rocm_version, probe_cpu]\<rparr>"
  by (simp add: detect_defs run_defs gpu_host_def)

lemma cuda_host_probe:
  "probe_hardware cuda_host None (session_start () 0)
    = Returns
        \<lparr>docker = False, nvidia = True, rocm = False, strix = False,
         architecture = ''x86_64'', dockerVersion = None,
         gpuInfo = Some ''NVIDIA GeForce RTX 4090'', cudaVersion = Some ''12.2'',
         rocmVersion = None, cpuModel = Some ''Intel Xeon E5-2680''\<rparr>
        \<lparr>remote = (), clock = 600,
         issued = [probe_architecture, probe_docker, probe_nvidia, probe_cuda, probe_rocm,
           probe_cpu]\<rparr>"
  by (simp add: detect_defs run_defs cuda_host_def x86_host_def)

lemma strix_host_probe:
  "probe_hardware strix_host None (session_start () 0)
    = Returns
        \<lparr>docker = False, nvidia = False, rocm = True, strix = True,
         architecture = ''x86_64'', dockerVersion = None, gpuInfo = None,
         cudaVersion = None, rocmVersion = None,
         cpuModel = Some ''AMD Ryzen AI Max+ 395''\<rparr>
        \<lparr>remote = (), clock = 600,
         issued = [probe_architecture, probe_docker, probe_nvidia, probe_rocm,
           probe_rocm_version, probe_cpu]\<rparr>"
  by (simp add: detect_defs run_defs strix_host_def x86_host_def)

lemma rocm_host_probe:
  "probe_hardware rocm_host None (session_start () 0)
    = Returns
        \<lparr>docker = False, nvidia = False, rocm = True, strix = False,
         architecture = ''x86_64'', dockerVersion = None, gpuInfo = None,
         cudaVersion = None, rocmVersion = None, cpuModel = Some ''AMD Ryzen 9 7950X''\<rparr>
        \<lparr>remote = (), clock = 600,
         issued = [probe_architecture, probe_docker, probe_nvidia, probe_rocm,
           probe_rocm_version, probe_cpu]\<rparr>"
  by (simp add: detect_defs run_defs rocm_host_def x86_host_def)

lemma plain_host_probe:
  "probe_hardware plain_host None (session_start () 0)
    = Returns
        \<lparr>docker = False, nvidia = False, rocm = False, strix = False,
         architecture = ''x86_64'', dockerVersion = None, gpuInfo = None,
         cudaVersion = None, rocmVersion = None, cpuModel = Some ''Intel Xeon E5-2680''\<rparr>
        \<lparr>remote = (), clock = 500,
         issued = [probe_architecture, probe_docker, probe_nvidia, probe_rocm, probe_cpu]\<rparr>"
  by (simp add: detect_defs run_defs plain_host_def x86_host_def)

text \<open>
  Five x86 hosts satisfy the hypotheses. With all three accelerators and without the
  CUDA compiler, NVIDIA wins with confidence \<^verbatim>\<open>'medium'\<close>; with the CUDA compiler the
  confidence is \<^verbatim>\<open>'high'\<close>; without NVIDIA, Strix wins over ROCm; ROCm alone gives
  \<^verbatim>\<open>'rocm'\<close>; no accelerator gives \<^verbatim>\<open>'cpu'\<close>.
\<close>

theorem recommendation_precedence_witness:
  "detectHardware gpu_host None (session_start () 0)
    = Returns
        \<lparr>detected = ''cuda'', confidence = ''medium'',
         details =
           \<lparr>docker = False, nvidia = True, rocm = True, strix = True,
            architecture = ''x86_64'', dockerVersion = None,
            gpuInfo = Some ''NVIDIA GeForce RTX 4090'', cudaVersion = None,
            rocmVersion = None, cpuModel = Some ''AMD Ryzen AI Max+ 395''\<rparr>,
         hardware_error = None, unsupportedReason = None\<rparr>
        \<lparr>remote = (), clock = 700,
         issued = [probe_architecture, probe_docker, probe_nvidia, probe_cuda, probe_rocm,
           probe_rocm_version, probe_cpu]\<rparr>
   \<and> detectHardware cuda_host None (session_start () 0)
    = Returns
        \<lparr>detected = ''cuda'', confidence = ''high'',
         details =
           \<lparr>docker = False, nvidia = True, rocm = False, strix = False,
            architecture = ''x86_64'', dockerVersion = None,
            gpuInfo = Some ''NVIDIA GeForce RTX 4090'', cudaVersion = Some ''12.2'',
            rocmVersion = None, cpuModel = Some ''Intel Xeon E5-2680''\<rparr>,
         hardware_error = None, unsupportedReason = None\<rparr>
        \<lparr>remote = (), clock = 600,
         issued = [probe_architecture, probe_docker, probe_nvidia, probe_cuda, probe_rocm,
           probe_cpu]\<rparr>
   \<and> detectHardware strix_host None (session_start () 0)
    = Returns
        \<lparr>detected = ''strix'', confidence = ''high'',
         details =
           \<lparr>docker = False, nvidia = False, rocm = True, strix = True,
            architecture = ''x86_64'', dockerVersion = None, gpuInfo = None,
            cudaVersion = None, rocmVersion = None,
            cpuModel = Some ''AMD Ryzen AI Max+ 395''\<rparr>,
         hardware_error = None, unsupportedReason = None\<rparr>
        \<lparr>remote = (), clock = 600,
         issued = [probe_architecture, probe_docker, probe_nvidia, probe_rocm,
           probe_rocm_version, probe_cpu]\<rparr>
   \<and> detectHardware rocm_host None (session_start () 0)
    = Returns
        \<lparr>detected = ''rocm'', confidence = ''high'',
         details =
           \<lparr>docker = False, nvidia = False, rocm = True, strix = False,
            architecture = ''x86_64'', dockerVersion = None, gpuInfo = None,
            cudaVersion = None, rocmVersion = None,
            cpuModel = Some ''AMD Ryzen 9 7950X''\<rparr>,
         hardware_error = None, unsupportedReason = None\<rparr>
        \<lparr>remote = (), clock = 600,
         issued = [probe_architecture, probe_docker, probe_nvidia, probe_rocm,
           probe_rocm_version, probe_cpu]\<rparr>
   \<and> detectHardware plain_host None (session_start () 0)
    = Returns
        \<lparr>detected = ''cpu'', confidence = ''high'',
         details =
           \<lparr>docker = False, nvidia = False, rocm = False, strix = False,
            architecture = ''x86_64'', dockerVersion = None, gpuInfo = None,
            cudaVersion = None, rocmVersion = None,
            cpuModel = Some ''Intel Xeon E5-2680''\<rparr>,
         hardware_error = None, unsupportedReason = None\<rparr>
        \<lparr>remote = (), clock = 500,
         issued = [probe_architecture, probe_docker, probe_nvidia, probe_rocm, probe_cpu]\<rparr>"
proof -
  have x86: "\<not> str_includes ''x86_64'' ''arm''" "\<not> str_includes ''x86_64'' ''aarch''"
    by simp_all
  from recommendation_precedence [OF gpu_host_probe]
    recommendation_precedence [OF cuda_host_probe]
    recommendation_precedence [OF strix_host_probe]
    recommendation_precedence [OF rocm_host_probe]
    recommendation_precedence [OF plain_host_probe] x86
  show ?thesis
    by simp
qed

text \<open>
  Every exit of \<^verbatim>\<open>deploy\<close> that resolves the promise has cleared \<^verbatim>\<open>sudoPassword\<close>;
  every exit that rejects it (the timer) leaves the password in place.
\<close>

lemma deploy_resolved_clears_sudoPassword:
  assumes "deploy host connection h config service = (Resolved r, service')"
  shows "sudoPassword service' = None"
  using assms
  by (auto simp: deploy_def Let_def split: connection.splits step.splits if_splits)

lemma deploy_rejected_keeps_sudoPassword:
  assumes "deploy host connection h config service = (Rejected m, service')"
  shows "sudoPassword service' = Some (password config)
    \<and> m = ''Deployment timeout after 5 minutes''"
  using assms
  by (auto simp: deploy_def Let_def split: connection.splits step.splits if_splits)

text \<open>
  Claim C4, as amended. When the connection emits \<^verbatim>\<open>error\<close> before the timer of the
  operation expires, \<^verbatim>\<open>testSetup\<close> and \<^verbatim>\<open>deploy\<close> resolve with
  \<^verbatim>\<open>{success: false, error}\<close> (and \<^verbatim>\<open>deploy\<close> clears \<^verbatim>\<open>sudoPassword\<close>), while
  \<^verbatim>\<open>monitorRemoteServices\<close> rejects with the error. When the timer expires first (the
  event of the connection comes too late, or the handler never ends), each of the three
  operations rejects with its timeout error. An error thrown by the handler before the
  timer expires resolves \<^verbatim>\<open>testSetup\<close> and \<^verbatim>\<open>deploy\<close> with \<^verbatim>\<open>{success: false, error}\<close>
  and rejects \<^verbatim>\<open>monitorRemoteServices\<close>.
\<close>

theorem connection_failures_by_operation:
  "(t < 30000 \<longrightarrow>
      testSetup host (ConnectionError err t) h config service
        = Resolved (Failure (error_message err)))
   \<and> (t < 300000 \<longrightarrow>
      deploy host (ConnectionError err t) h config service
        = (Resolved (Failure (connection_error_message err)),
           service\<lparr>sudoPassword := None\<rparr>))
   \<and> (t < 15000 \<longrightarrow>
      monitorRemoteServices host (ConnectionError err t) h config service
        = Rejected (error_message err))
   \<and> (30000 \<le> t \<longrightarrow>
      testSetup host (ConnectionError err t) h config service
        = Rejected ''Connection timeout after 30 seconds''
      \<and> testSetup host (Ready t) h config service
        = Rejected ''Connection timeout after 30 seconds'')
   \<and> (300000 \<le> t \<longrightarrow>
      fst (deploy host (ConnectionError err t) h config service)
        = Rejected ''Deployment timeout after 5 minutes''
      \<and> fst (deploy host (Ready t) h config service)
        = Rejected ''Deployment timeout after 5 minutes'')
   \<and> (15000 \<le> t \<longrightarrow>
      monitorRemoteServices host (ConnectionError err t) h config service
        = Rejected ''Monitor timeout after 15 seconds''
      \<and> monitorRemoteServices host (Ready t) h config service
        = Rejected ''Monitor timeout after 15 seconds'')
   \<and> (\<forall>s. detectHardware host (sudoPassword service) (session_start h t) = Hangs s \<longrightarrow>
      testSetup host (Ready t) h config service
        = Rejected ''Connection timeout after 30 seconds'')
   \<and> (\<forall>s. deploy_steps host config (session_start h t) = Hangs s \<longrightarrow>
      fst (deploy host (Ready t) h config service)
        = Rejected ''Deployment timeout after 5 minutes'')
   \<and> (\<forall>s. monitor_steps host (sudoPassword service) config (session_start h t) = Hangs s \<longrightarrow>
      monitorRemoteServices host (Ready t) h config service
        = Rejected ''Monitor timeout after 15 seconds'')
   \<and> (\<forall>m s. t < 30000 \<and> clock s < 30000
        \<and> detectHardware host (sudoPassword service) (session_start h t) = Throws m s \<longrightarrow>
      testSetup host (Ready t) h config service = Resolved (Failure m))
   \<and> (\<forall>m s. t < 300000 \<and> clock s < 300000
        \<and> deploy_steps host config (session_start h t) = Throws m s \<longrightarrow>
      fst (deploy host (Ready t) h config service)
        = Resolved (Failure (deploy_error_message m)))
   \<and> (\<forall>m s. t < 15000 \<and> clock s < 15000
        \<and> monitor_steps host (sudoPassword service) config (session_start h t)
            = Throws m s \<longrightarrow>
      monitorRemoteServices host (Ready t) h config service = Rejected m)"
  by (auto simp: testSetup_def deploy_def monitorRemoteServices_def Let_def)

text \<open>
  The claim as stated fails: \<^verbatim>\<open>monitorRemoteServices\<close> rejects when the connection is
  refused, and \<^verbatim>\<open>testSetup\<close> and \<^verbatim>\<open>deploy\<close> reject when their timer expires.
\<close>

theorem rejections_on_connection_failure:
  "monitorRemoteServices silent_host (ConnectionError refused 40) ()
      (example_config ''cpu'') new_remote_service
     = Rejected ''connect ECONNREFUSED 10.0.0.5:22''
   \<and> testSetup silent_host (Ready 40) () (example_config ''cpu'') new_remote_service
     = Rejected ''Connection timeout after 30 seconds''
   \<and> fst (deploy silent_host (Ready 40) () (example_config ''cpu'') new_remote_service)
     = Rejected ''Deployment timeout after 5 minutes''"
  by (simp add: monitorRemoteServices_def testSetup_def deploy_def detect_defs run_defs
      silent_host_def refused_def new_remote_service_def)

text \<open>
  A refused connection after 40 ms, a connection ready only after five minutes, and a
  host whose channels fail.
\<close>

theorem connection_failures_by_operation_witness:
  "testSetup arm_host (ConnectionError refused 40) () (example_config ''cpu'')
      new_remote_service
     = Resolved (Failure ''connect ECONNREFUSED 10.0.0.5:22'')
   \<and> deploy arm_host (ConnectionError refused 40) () (example_config ''cpu'')
      new_remote_service
     = (Resolved (Failure ''Connection refused. Please check the host and port.''),
        \<lparr>sudoPassword = None\<rparr>)
   \<and> monitorRemoteServices arm_host (ConnectionError refused 40) () (example_config ''cpu'')
      new_remote_service
     = Rejected ''connect ECONNREFUSED 10.0.0.5:22''
   \<and> testSetup arm_host (Ready 300000) () (example_config ''cpu'') new_remote_service
     = Rejected ''Connection timeout after 30 seconds''
   \<and> fst (deploy arm_host (Ready 300000) () (example_config ''cpu'') new_remote_service)
     = Rejected ''Deployment timeout after 5 minutes''
   \<and> monitorRemoteServices arm_host (Ready 300000) () (example_config ''cpu'')
      new_remote_service
     = Rejected ''Monitor timeout after 15 seconds''
   \<and> detectHardware arm_host_dropping None (session_start () 40)
     = Throws ''(SSH) Channel open failure: open failed''
        \<lparr>remote = (), clock = 240, issued = [probe_architecture, probe_docker]\<rparr>
   \<and> testSetup arm_host_dropping (Ready 40) () (example_config ''cpu'') new_remote_service
     = Resolved (Failure ''(SSH) Channel open failure: open failed'')"
proof -
  have run: "detectHardware arm_host_dropping (sudoPassword new_remote_service)
      (session_start () 40)
     = Throws ''(SSH) Channel open failure: open failed''
        \<lparr>remote = (), clock = 240, issued = [probe_architecture, probe_docker]\<rparr>"
    by (simp add: detect_defs run_defs arm_host_dropping_def new_remote_service_def)
  show ?thesis
    using connection_failures_by_operation [of 40 arm_host refused "()"
        "example_config ''cpu''" new_remote_service]
      connection_failures_by_operation [of 300000 arm_host refused "()"
        "example_config ''cpu''" new_remote_service]
      connection_failures_by_operation [of 40 arm_host_dropping refused "()"
        "example_config ''cpu''" new_remote_service]
      run
    by (simp add: refused_def connection_error_message_def new_remote_service_def)
qed


end
